theory Spec2Isabelle
  imports Main "HOL-Library.Sublist" "HOL-Library.List_Lexorder" "HOL-Library.Char_ord"
begin

section \<open>Strings and the string built-ins the worker calls\<close>

text \<open>
  A JavaScript string is modelled by its UTF-8 bytes (\<open>string\<close> is \<open>char list\<close>, a
  \<open>char\<close> is a byte). Every pattern the worker searches for is ASCII, and an ASCII byte
  never occurs inside a multi-byte UTF-8 sequence, so \<open>startsWith\<close>, \<open>includes\<close>,
  \<open>replace\<close> and the regular expression find the same occurrences on the bytes as on
  the UTF-16 code units.
\<close>

definition dquote :: char where
  "dquote = CHR 0x22"

definition squote :: char where
  "squote = CHR 0x27"

definition startsWith :: "string \<Rightarrow> string \<Rightarrow> bool" where
  "startsWith s p = prefix p s"

text \<open>\<open>s.includes(sub)\<close>: \<open>sub\<close> occurs in \<open>s\<close> as a contiguous substring.\<close>

fun str_includes :: "string \<Rightarrow> string \<Rightarrow> bool" where
  "str_includes [] sub = (sub = [])"
| "str_includes (c # cs) sub = (prefix sub (c # cs) \<or> str_includes cs sub)"

text \<open>
  \<open>s.replace(pat, rep)\<close> with a string pattern: only the first occurrence is replaced.
  The worker calls it with the replacement \<open>""\<close>, which has no \<open>$\<close> pattern.
\<close>

fun replace_str :: "string \<Rightarrow> string \<Rightarrow> string \<Rightarrow> string" where
  "replace_str [] pat rep = (if pat = [] then rep else [])"
| "replace_str (c # cs) pat rep =
     (if prefix pat (c # cs) then rep @ drop (length pat) (c # cs)
      else c # replace_str cs pat rep)"

definition lower_char :: "char \<Rightarrow> char" where
  "lower_char c =
     (if CHR ''A'' \<le> c \<and> c \<le> CHR ''Z'' then char_of (of_char c + (32::nat)) else c)"

text \<open>\<open>name.toLowerCase()\<close> on a header name (header names are ASCII tokens).\<close>

definition toLowerCase :: "string \<Rightarrow> string" where
  "toLowerCase s = map lower_char s"

subsection \<open>Errors\<close>

datatype js_error =
    TypeError (message: string)
  | URIError (message: string)
  | RangeError (message: string)
  | NetworkError (message: string)

subsection \<open>decodeURIComponent\<close>

definition hex_val :: "char \<Rightarrow> nat option" where
  "hex_val c =
     (if CHR ''0'' \<le> c \<and> c \<le> CHR ''9'' then Some (of_char c - 48)
      else if CHR ''a'' \<le> c \<and> c \<le> CHR ''f'' then Some (of_char c - 87)
      else if CHR ''A'' \<le> c \<and> c \<le> CHR ''F'' then Some (of_char c - 55)
      else None)"

definition hex_octet :: "char \<Rightarrow> char \<Rightarrow> nat option" where
  "hex_octet a b =
     (case (hex_val a, hex_val b) of (Some h, Some l) \<Rightarrow> Some (16 * h + l) | _ \<Rightarrow> None)"

text \<open>A character of the input, or the octet written by an escape \<open>%XX\<close>.\<close>

datatype uri_token = Raw char | Esc nat

text \<open>First pass: every \<open>%\<close> must be followed by two hexadecimal digits.\<close>

fun uri_tokens :: "string \<Rightarrow> uri_token list option" where
  "uri_tokens [] = Some []"
| "uri_tokens (c # cs) =
     (if c \<noteq> CHR ''%'' then map_option (Cons (Raw c)) (uri_tokens cs)
      else (case cs of
              a # b # rest \<Rightarrow>
                (case hex_octet a b of
                   None \<Rightarrow> None
                 | Some B \<Rightarrow> map_option (Cons (Esc B)) (uri_tokens rest))
            | _ \<Rightarrow> None))"

text \<open>The number of leading one bits of an octet (5 stands for "more than 4").\<close>

definition leading_ones :: "nat \<Rightarrow> nat" where
  "leading_ones B =
     (if B < 128 then 0 else if B < 192 then 1 else if B < 224 then 2
      else if B < 240 then 3 else if B < 248 then 4 else 5)"

definition cont_byte :: "nat \<Rightarrow> bool" where
  "cont_byte b = (128 \<le> b \<and> b \<le> 191)"

text \<open>The well-formed UTF-8 byte sequences of one code point (Unicode, table 3-7).\<close>

fun valid_utf8 :: "nat list \<Rightarrow> bool" where
  "valid_utf8 [a, b] = (194 \<le> a \<and> a \<le> 223 \<and> cont_byte b)"
| "valid_utf8 [a, b, c] =
     (cont_byte c \<and>
      ((a = 224 \<and> 160 \<le> b \<and> b \<le> 191) \<or>
       (225 \<le> a \<and> a \<le> 236 \<and> cont_byte b) \<or>
       (a = 237 \<and> 128 \<le> b \<and> b \<le> 159) \<or>
       (238 \<le> a \<and> a \<le> 239 \<and> cont_byte b)))"
| "valid_utf8 [a, b, c, d] =
     (cont_byte c \<and> cont_byte d \<and>
      ((a = 240 \<and> 144 \<le> b \<and> b \<le> 191) \<or>
       (241 \<le> a \<and> a \<le> 243 \<and> cont_byte b) \<or>
       (a = 244 \<and> 128 \<le> b \<and> b \<le> 143)))"
| "valid_utf8 _ = False"

fun esc_octets :: "uri_token list \<Rightarrow> nat list option" where
  "esc_octets [] = Some []"
| "esc_octets (Raw c # ts) = None"
| "esc_octets (Esc b # ts) = map_option (Cons b) (esc_octets ts)"

text \<open>
  Second pass: an escaped octet below 128 is that character; an escaped lead octet must be
  followed by its escaped continuation octets, together a well-formed UTF-8 sequence.
\<close>

fun uri_decode :: "uri_token list \<Rightarrow> string option" where
  "uri_decode [] = Some []"
| "uri_decode (Raw c # ts) = map_option (Cons c) (uri_decode ts)"
| "uri_decode (Esc B # ts) =
     (let n = leading_ones B in
      if n = 0 then map_option (Cons (char_of B)) (uri_decode ts)
      else if n = 1 \<or> n > 4 then None
      else if length ts < n - 1 then None
      else (case esc_octets (take (n - 1) ts) of
              None \<Rightarrow> None
            | Some os \<Rightarrow>
                if valid_utf8 (B # os)
                then map_option (\<lambda>r. map char_of (B # os) @ r) (uri_decode (drop (n - 1) ts))
                else None))"

definition decodeURIComponent :: "string \<Rightarrow> js_error + string" where
  "decodeURIComponent s =
     (case uri_tokens s of
        None \<Rightarrow> Inl (URIError ''URI malformed'')
      | Some ts \<Rightarrow>
          (case uri_decode ts of
             None \<Rightarrow> Inl (URIError ''URI malformed'')
           | Some r \<Rightarrow> Inr r))"

subsection \<open>encodeURIComponent\<close>

definition uri_unreserved :: "char \<Rightarrow> bool" where
  "uri_unreserved c =
     ((CHR ''A'' \<le> c \<and> c \<le> CHR ''Z'') \<or> (CHR ''a'' \<le> c \<and> c \<le> CHR ''z'') \<or>
      (CHR ''0'' \<le> c \<and> c \<le> CHR ''9'') \<or>
      c \<in> set [CHR ''-'', CHR ''_'', CHR ''.'', CHR ''!'', CHR ''~'', CHR ''*'', squote,
                CHR ''('', CHR '')''])"

definition hex_digit :: "nat \<Rightarrow> char" where
  "hex_digit n = ''0123456789ABCDEF'' ! (n mod 16)"

definition pct_encode :: "char \<Rightarrow> string" where
  "pct_encode c = [CHR ''%'', hex_digit (of_char c div 16), hex_digit (of_char c mod 16)]"

definition encodeURIComponent :: "string \<Rightarrow> string" where
  "encodeURIComponent s = concat (map (\<lambda>c. if uri_unreserved c then [c] else pct_encode c) s)"

subsection \<open>Quoting a string for JSON\<close>

definition json_escape :: "char \<Rightarrow> string" where
  "json_escape c =
     (if c = CHR 0x08 then [CHR 0x5C, CHR ''b'']
      else if c = CHR 0x09 then [CHR 0x5C, CHR ''t'']
      else if c = CHR 0x0A then [CHR 0x5C, CHR ''n'']
      else if c = CHR 0x0C then [CHR 0x5C, CHR ''f'']
      else if c = CHR 0x0D then [CHR 0x5C, CHR ''r'']
      else if c = dquote then [CHR 0x5C, dquote]
      else if c = CHR 0x5C then [CHR 0x5C, CHR 0x5C]
      else if c < CHR 0x20 then
        [CHR 0x5C, CHR ''u'', CHR ''0'', CHR ''0'',
         lower_char (hex_digit (of_char c div 16)), lower_char (hex_digit (of_char c mod 16))]
      else [c])"

definition QuoteJSONString :: "string \<Rightarrow> string" where
  "QuoteJSONString s = [dquote] @ concat (map json_escape s) @ [dquote]"

subsection \<open>Reading JSON\<close>

text \<open>
  What a JSON parser reads back. \<open>json_read_string\<close> starts behind the opening quote of
  a string and returns the characters of the string and the input behind its closing
  quote. An escape \<open>\\uXXXX\<close> is read when it stands for an ASCII character; that is
  all \<open>JSON.stringify\<close> writes for a string without lone surrogates.
\<close>

definition json_simple_escape :: "char \<Rightarrow> char option" where
  "json_simple_escape e =
     (if e = dquote then Some dquote
      else if e = CHR 0x5C then Some (CHR 0x5C)
      else if e = CHR ''/'' then Some (CHR ''/'')
      else if e = CHR ''b'' then Some (CHR 0x08)
      else if e = CHR ''f'' then Some (CHR 0x0C)
      else if e = CHR ''n'' then Some (CHR 0x0A)
      else if e = CHR ''r'' then Some (CHR 0x0D)
      else if e = CHR ''t'' then Some (CHR 0x09)
      else None)"

fun json_read_string :: "string \<Rightarrow> (string \<times> string) option" where
  "json_read_string [] = None"
| "json_read_string (c # cs) =
     (if c = dquote then Some ([], cs)
      else if c = CHR 0x5C then
        (case cs of
           [] \<Rightarrow> None
         | e # r \<Rightarrow>
             if e = CHR ''u'' then
               (case r of
                  a # b # x # y # r' \<Rightarrow>
                    (case (hex_octet a b, hex_octet x y) of
                       (Some hi, Some lo) \<Rightarrow>
                         if hi = 0 \<and> lo < 128
                         then map_option (\<lambda>(s, rest). (char_of lo # s, rest))
                                (json_read_string r')
                         else None
                     | _ \<Rightarrow> None)
                | _ \<Rightarrow> None)
             else
               (case json_simple_escape e of
                  None \<Rightarrow> None
                | Some d \<Rightarrow> map_option (\<lambda>(s, rest). (d # s, rest)) (json_read_string r)))
      else if c < CHR 0x20 then None
      else map_option (\<lambda>(s, rest). (c # s, rest)) (json_read_string cs))"

text \<open>
  \<open>JSON_parse_member\<close> reads a text of the form \<open>{"key":"value"}\<close>, an object with one
  member whose value is a string, and returns the key and the value.
\<close>

definition JSON_parse_member :: "string \<Rightarrow> (string \<times> string) option" where
  "JSON_parse_member s =
     (case s of
        c1 # c2 # r \<Rightarrow>
          if c1 = CHR ''{'' \<and> c2 = dquote then
            (case json_read_string r of
               Some (k, c3 # c4 # r2) \<Rightarrow>
                 if c3 = CHR '':'' \<and> c4 = dquote then
                   (case json_read_string r2 of
                      Some (v, rest) \<Rightarrow> if rest = ''}'' then Some (k, v) else None
                    | None \<Rightarrow> None)
                 else None
             | _ \<Rightarrow> None)
          else None
      | _ \<Rightarrow> None)"

section \<open>ensureProtocol\<close>

definition ensureProtocol :: "string \<Rightarrow> string \<Rightarrow> string" where
  "ensureProtocol url defaultProtocol =
     (if startsWith url ''http://'' \<or> startsWith url ''https://'' then url
      else defaultProtocol @ ''//'' @ url)"

section \<open>The platform's data: URLs, header lists, requests, responses\<close>

subsection \<open>URL objects\<close>

text \<open>
  A parsed URL as the \<open>URL\<close> class exposes it. The parser itself belongs to the platform
  (see \<open>URL_parse\<close> below); the getters \<open>protocol\<close>, \<open>host\<close> and \<open>search\<close> are
  computed from the components the way the URL standard defines them.
\<close>

record url =
  url_href :: string
  url_origin :: string
  url_scheme :: string
  url_hostname :: string
  url_port :: string
  url_pathname :: string
  url_query :: "string option"

definition url_protocol :: "url \<Rightarrow> string" where
  "url_protocol u = url_scheme u @ '':''"

definition url_host :: "url \<Rightarrow> string" where
  "url_host u =
     (if url_port u = [] then url_hostname u else url_hostname u @ '':'' @ url_port u)"

definition url_search :: "url \<Rightarrow> string" where
  "url_search u = (case url_query u of None \<Rightarrow> [] | Some q \<Rightarrow> if q = [] then [] else CHR ''?'' # q)"

subsection \<open>Header lists (the \<open>Headers\<close> class)\<close>

text \<open>
  A \<open>Headers\<close> object is its header list: the (name, value) pairs in insertion order.
  Names match byte-case-insensitively. Every value the worker stores is either a constant
  or was read from another header list, so the normalisation and validation of values
  done by \<open>set\<close> and \<open>append\<close> changes nothing and is left out.
\<close>

type_synonym header_list = "(string \<times> string) list"

definition name_eq :: "string \<Rightarrow> string \<Rightarrow> bool" where
  "name_eq a b = (toLowerCase a = toLowerCase b)"

definition headers_has :: "header_list \<Rightarrow> string \<Rightarrow> bool" where
  "headers_has h n = list_ex (\<lambda>(k, v). name_eq k n) h"

fun join_values :: "string list \<Rightarrow> string" where
  "join_values [] = []"
| "join_values [v] = v"
| "join_values (v # w # vs) = v @ '', '' @ join_values (w # vs)"

definition header_values :: "header_list \<Rightarrow> string \<Rightarrow> string list" where
  "header_values h n = map snd (filter (\<lambda>(k, v). name_eq k n) h)"

text \<open>\<open>headers.get(name)\<close>: the values of the matching headers joined by ", ", or null.\<close>

definition headers_get :: "header_list \<Rightarrow> string \<Rightarrow> string option" where
  "headers_get h n = (if headers_has h n then Some (join_values (header_values h n)) else None)"

text \<open>A value that may be null, converted to a string where the platform expects one.\<close>

definition js_string :: "string option \<Rightarrow> string" where
  "js_string v = (case v of None \<Rightarrow> ''null'' | Some s \<Rightarrow> s)"

text \<open>Appending keeps the spelling of the name of the first header that matches.\<close>

definition headers_append :: "header_list \<Rightarrow> string \<Rightarrow> string \<Rightarrow> header_list" where
  "headers_append h n v =
     h @ [(case find (\<lambda>(k, w). name_eq k n) h of Some (k, w) \<Rightarrow> k | None \<Rightarrow> n, v)]"

fun set_first :: "header_list \<Rightarrow> string \<Rightarrow> string \<Rightarrow> header_list" where
  "set_first [] n v = []"
| "set_first ((k, w) # h) n v =
     (if name_eq k n then (k, v) # filter (\<lambda>(k', w'). \<not> name_eq k' n) h
      else (k, w) # set_first h n v)"

text \<open>
  \<open>headers.set(name, value)\<close>: the first matching header takes the value and the other
  matching headers are removed; without a match the header is appended.
\<close>

definition headers_set :: "header_list \<Rightarrow> string \<Rightarrow> string \<Rightarrow> header_list" where
  "headers_set h n v = (if headers_has h n then set_first h n v else h @ [(n, v)])"

text \<open>
  Iterating a \<open>Headers\<close> object (\<open>[...headers]\<close>, or passing it where a sequence of pairs
  is expected) yields "sort and combine": the lower-cased names, sorted, each with its
  combined value; \<open>set-cookie\<close> headers are not combined.
\<close>

definition sorted_names :: "header_list \<Rightarrow> string list" where
  "sorted_names h = sort (remdups (map (\<lambda>(k, v). toLowerCase k) h))"

definition combine_name :: "header_list \<Rightarrow> string \<Rightarrow> header_list" where
  "combine_name h n =
     (if n = ''set-cookie'' then map (Pair n) (header_values h n)
      else [(n, join_values (header_values h n))])"

definition headers_entries :: "header_list \<Rightarrow> (string \<times> string) list" where
  "headers_entries h = concat (map (combine_name h) (sorted_names h))"

text \<open>\<open>new Headers(init)\<close> for a sequence of pairs: each pair is appended.\<close>

definition new_Headers :: "(string \<times> string) list \<Rightarrow> header_list" where
  "new_Headers init = foldl (\<lambda>h (n, v). headers_append h n v) [] init"

text \<open>
  An object literal: a later property with the same key overwrites the value and keeps the
  position of the first.
\<close>

fun obj_define :: "(string \<times> string) list \<Rightarrow> string \<times> string \<Rightarrow> (string \<times> string) list" where
  "obj_define [] (k, v) = [(k, v)]"
| "obj_define ((k', v') # ps) (k, v) =
     (if k' = k then (k, v) # ps else (k', v') # obj_define ps (k, v))"

definition object_literal :: "(string \<times> string) list \<Rightarrow> (string \<times> string) list" where
  "object_literal props = foldl obj_define [] props"

text \<open>
  \<open>{ ...headers }\<close>: spreading copies the own enumerable properties of the object. A
  \<open>Headers\<close> object keeps its header list in an internal slot and exposes it through
  methods of its prototype only, so it has no own enumerable property.
\<close>

definition spread_Headers :: "header_list \<Rightarrow> (string \<times> string) list" where
  "spread_Headers h = []"

subsection \<open>Requests and responses\<close>

datatype redirect_mode = Follow | Manual | ErrorMode

record request =
  req_url :: string
  req_method :: string
  req_headers :: header_list
  req_body :: "string option"
  req_redirect :: redirect_mode

record response =
  resp_status :: nat
  resp_statusText :: string
  resp_headers :: header_list
  resp_body :: "string option"

text \<open>
  What the platform supplies: the URL parser (\<open>new URL(input)\<close> and
  \<open>new URL(input, base)\<close>, which raise a \<open>TypeError\<close> on failure), the network
  (\<open>fetch\<close>, which raises when the upstream cannot be reached), and the text of the
  landing page, a constant of 85 lines returned by \<open>getRootHtml\<close> that no property
  below depends on.
\<close>

record platform =
  URL_parse :: "string \<Rightarrow> string option \<Rightarrow> js_error + url"
  fetch :: "request \<Rightarrow> js_error + response"
  getRootHtml :: string

text \<open>The body given to a constructor: a string, or a stream (possibly null).\<close>

datatype body_init = TextBody string | StreamBody "string option"

definition body_content :: "body_init \<Rightarrow> string option" where
  "body_content b = (case b of TextBody t \<Rightarrow> Some t | StreamBody s \<Rightarrow> s)"

definition null_body_status :: "nat \<Rightarrow> bool" where
  "null_body_status s = (s \<in> set [101, 204, 205, 304])"

text \<open>
  \<open>new Response(body, { status, statusText, headers })\<close>. The status must lie in
  200..599, a null body status admits no body, and a string body brings its content type
  when the headers name none. A status text handed over from an upstream response is a
  valid reason phrase, so the check of the status text cannot fail and is left out.
\<close>

definition Response_new ::
  "body_init \<Rightarrow> nat \<Rightarrow> string \<Rightarrow> (string \<times> string) list \<Rightarrow> js_error + response" where
  "Response_new b st stText hinit =
     (if st < 200 \<or> 599 < st then
        Inl (RangeError ''Responses may only be constructed with status codes in the range 200 to 599, inclusive.'')
      else if body_content b \<noteq> None \<and> null_body_status st then
        Inl (TypeError ''Response with null body status (101, 204, 205, or 304) cannot have a body.'')
      else
        Inr \<lparr> resp_status = st, resp_statusText = stText,
              resp_headers =
                (let h = new_Headers hinit in
                 case b of
                   TextBody t \<Rightarrow>
                     if headers_has h ''Content-Type'' then h
                     else headers_append h ''Content-Type'' ''text/plain;charset=UTF-8''
                 | StreamBody s \<Rightarrow> h),
              resp_body = body_content b \<rparr>)"

text \<open>
  \<open>new Request(input, { headers, method, body, redirect })\<close>. The input must parse as a
  URL and a GET or HEAD request admits no body. \<open>req_url\<close> keeps the string the request
  was built from; bringing it to its normal form is left to the platform's \<open>fetch\<close>.
  The header list of a \<open>Headers\<close> object is copied header by header.
\<close>

definition Request_new ::
  "platform \<Rightarrow> string \<Rightarrow> header_list \<Rightarrow> string \<Rightarrow> string option \<Rightarrow> redirect_mode \<Rightarrow>
   js_error + request" where
  "Request_new p input hdrs method bdy redir =
     (case URL_parse p input None of
        Inl e \<Rightarrow> Inl e
      | Inr parsed \<Rightarrow>
          if bdy \<noteq> None \<and> (method = ''GET'' \<or> method = ''HEAD'') then
            Inl (TypeError ''Request with a GET or HEAD method cannot have a body.'')
          else
            Inr \<lparr> req_url = input, req_method = method, req_headers = new_Headers hdrs,
                  req_body = bdy, req_redirect = redir \<rparr>)"

text \<open>
  \<open>await response.text()\<close> reads the body to its end and decodes it as UTF-8: a byte
  order mark at the start is dropped, and every maximal ill-formed part is replaced by
  U+FFFD. On the bytes, the well-formed sequences stay and the replacement character is
  written as its three bytes. \<open>utf8_start\<close> is the decoder between two code points;
  \<open>utf8_cont\<close> is the decoder inside a sequence, with the bytes read so far, the number
  of bytes still needed and the bounds for the next byte. A byte that does not continue
  the sequence ends it and is read again as a first byte.
\<close>

definition replacement_char :: string where
  "replacement_char = [CHR 0xEF, CHR 0xBF, CHR 0xBD]"

definition byte_order_mark :: string where
  "byte_order_mark = [CHR 0xEF, CHR 0xBB, CHR 0xBF]"

function utf8_start :: "string \<Rightarrow> string"
  and utf8_cont :: "string \<Rightarrow> nat \<Rightarrow> nat \<Rightarrow> nat \<Rightarrow> string \<Rightarrow> string" where
  "utf8_start [] = []"
| "utf8_start (b # bs) =
     (if of_char b < (128::nat) then b # utf8_start bs
      else if 194 \<le> (of_char b :: nat) \<and> of_char b \<le> (223::nat) then
        utf8_cont [b] 1 128 191 bs
      else if 224 \<le> (of_char b :: nat) \<and> of_char b \<le> (239::nat) then
        utf8_cont [b] 2 (if of_char b = (224::nat) then 160 else 128)
          (if of_char b = (237::nat) then 159 else 191) bs
      else if 240 \<le> (of_char b :: nat) \<and> of_char b \<le> (244::nat) then
        utf8_cont [b] 3 (if of_char b = (240::nat) then 144 else 128)
          (if of_char b = (244::nat) then 143 else 191) bs
      else replacement_char @ utf8_start bs)"
| "utf8_cont seen needed lower upper [] = replacement_char"
| "utf8_cont seen needed lower upper (b # bs) =
     (if of_char b < lower \<or> upper < of_char b then replacement_char @ utf8_start (b # bs)
      else if needed \<le> 1 then seen @ [b] @ utf8_start bs
      else utf8_cont (seen @ [b]) (needed - 1) 128 191 bs)"
  by pat_completeness auto
termination
  by (relation "measure (\<lambda>x. case x of
                          Inl bs \<Rightarrow> 2 * length bs
                        | Inr (seen, needed, lower, upper, bs) \<Rightarrow> 2 * length bs + 1)")
     auto

definition utf8_decode :: "string \<Rightarrow> string" where
  "utf8_decode bs =
     utf8_start (if prefix byte_order_mark bs then drop (length byte_order_mark) bs else bs)"

definition response_text :: "response \<Rightarrow> string" where
  "response_text r = (case resp_body r of None \<Rightarrow> [] | Some t \<Rightarrow> utf8_decode t)"

section \<open>The regular expression and its global replacement\<close>

text \<open>
  The worker's only regular expression is \<open>((href|src|action)=["'])/(?!/)\<close> with the
  flag \<open>g\<close>. Group 2 is the alternation, group 1 is group 2 with the \<open>=\<close> and the quote.
  \<open>match_tail\<close> matches what follows group 2: \<open>=\<close>, one quote character, \<open>/\<close>, and then
  the negative lookahead: the next character is not \<open>/\<close>. It returns the quote.
\<close>

definition attr_alternatives :: "string list" where
  "attr_alternatives = [''href'', ''src'', ''action'']"

definition match_tail :: "string \<Rightarrow> char option" where
  "match_tail s =
     (case s of
        e # q # sl # r \<Rightarrow>
          if e = CHR ''='' \<and> (q = dquote \<or> q = squote) \<and> sl = CHR ''/'' \<and> \<not> prefix ''/'' r
          then Some q else None
      | _ \<Rightarrow> None)"

text \<open>
  A match that starts at the head of \<open>s\<close>: the alternatives are tried in order, and the
  matcher backtracks into the next alternative when the rest of the pattern fails.
\<close>

fun regex_match_at :: "string list \<Rightarrow> string \<Rightarrow> (string \<times> char) option" where
  "regex_match_at [] s = None"
| "regex_match_at (a # as) s =
     (if prefix a s then
        (case match_tail (drop (length a) s) of
           Some q \<Rightarrow> Some (a, q)
         | None \<Rightarrow> regex_match_at as s)
      else regex_match_at as s)"

definition is_digit :: "char \<Rightarrow> bool" where
  "is_digit c = (CHR ''0'' \<le> c \<and> c \<le> CHR ''9'')"

definition digit_val :: "char \<Rightarrow> nat" where
  "digit_val c = of_char c - 48"

definition capture :: "string list \<Rightarrow> nat \<Rightarrow> string" where
  "capture caps i = caps ! (i - 1)"

text \<open>
  The expansion of a replacement template for one match (GetSubstitution of ECMAScript):
  \<open>$$\<close> is a dollar sign, \<open>$&\<close> the match, \<open>$`\<close> the text before it, \<open>$'\<close> the text after
  it, \<open>$n\<close> and \<open>$nn\<close> the capture of that number when the pattern has one; any other
  \<open>$\<close> stands for itself. The pattern has no named group.
\<close>

fun GetSubstitution ::
  "string \<Rightarrow> string \<Rightarrow> string \<Rightarrow> string list \<Rightarrow> string \<Rightarrow> string" where
  "GetSubstitution matched preceding following caps [] = []"
| "GetSubstitution matched preceding following caps [c] = [c]"
| "GetSubstitution matched preceding following caps (c # d # t) =
     (if c \<noteq> CHR ''$'' then c # GetSubstitution matched preceding following caps (d # t)
      else if d = CHR ''$'' then CHR ''$'' # GetSubstitution matched preceding following caps t
      else if d = CHR ''&'' then matched @ GetSubstitution matched preceding following caps t
      else if d = CHR 0x60 then preceding @ GetSubstitution matched preceding following caps t
      else if d = squote then following @ GetSubstitution matched preceding following caps t
      else if is_digit d then
        (case t of
           e # t' \<Rightarrow>
             if is_digit e \<and> 10 * digit_val d + digit_val e \<le> length caps then
               (if 1 \<le> 10 * digit_val d + digit_val e
                then capture caps (10 * digit_val d + digit_val e)
                       @ GetSubstitution matched preceding following caps t'
                else [c, d, e] @ GetSubstitution matched preceding following caps t')
             else if 1 \<le> digit_val d \<and> digit_val d \<le> length caps then
               capture caps (digit_val d) @ GetSubstitution matched preceding following caps (e # t')
             else [c, d] @ GetSubstitution matched preceding following caps (e # t')
         | [] \<Rightarrow>
             if 1 \<le> digit_val d \<and> digit_val d \<le> length caps then capture caps (digit_val d)
             else [c, d])
      else c # GetSubstitution matched preceding following caps (d # t))"

text \<open>
  \<open>text.replace(regex, template)\<close> with the global flag: the text is scanned from left to
  right, each match is replaced by the expansion of the template and the scan goes on
  behind the match. \<open>preceding\<close> is the text already passed.
\<close>

fun regex_replace :: "string \<Rightarrow> string \<Rightarrow> string \<Rightarrow> string" where
  "regex_replace template preceding [] = []"
| "regex_replace template preceding (c # cs) =
     (case regex_match_at attr_alternatives (c # cs) of
        None \<Rightarrow> c # regex_replace template (preceding @ [c]) cs
      | Some (a, q) \<Rightarrow>
          GetSubstitution (a @ [CHR ''='', q, CHR ''/'']) preceding (drop (length a + 2) cs)
            [a @ [CHR ''='', q], a] template
          @ regex_replace template (preceding @ a @ [CHR ''='', q, CHR ''/''])
              (drop (length a + 2) cs))"

section \<open>The worker\<close>

subsection \<open>Helpers (worker.js, lines 133 to 164)\<close>

text \<open>\<open>replaceRelativePaths\<close>; the parameter \<open>origin\<close> is not used by the source.\<close>

definition replaceRelativePaths :: "string \<Rightarrow> string \<Rightarrow> string \<Rightarrow> string \<Rightarrow> string" where
  "replaceRelativePaths text protocol host origin =
     regex_replace (''$1'' @ protocol @ ''//'' @ host @ ''/'') [] text"

text \<open>\<open>JSON.stringify\<close> of an object whose values are strings.\<close>

fun json_members :: "(string \<times> string) list \<Rightarrow> string" where
  "json_members [] = []"
| "json_members [(k, v)] = QuoteJSONString k @ '':'' @ QuoteJSONString v"
| "json_members ((k, v) # m # ms) =
     QuoteJSONString k @ '':'' @ QuoteJSONString v @ '','' @ json_members (m # ms)"

definition JSON_stringify :: "(string \<times> string) list \<Rightarrow> string" where
  "JSON_stringify data = ''{'' @ json_members data @ ''}''"

definition jsonResponse :: "(string \<times> string) list \<Rightarrow> nat \<Rightarrow> js_error + response" where
  "jsonResponse data status =
     Response_new (TextBody (JSON_stringify data)) status []
       (object_literal [(''Content-Type'', ''application/json; charset=utf-8'')])"

definition filterHeaders :: "header_list \<Rightarrow> (string \<Rightarrow> bool) \<Rightarrow> header_list" where
  "filterHeaders headers filterFunc =
     new_Headers (filter (\<lambda>(name, value). filterFunc name) (headers_entries headers))"

definition setNoCacheHeaders :: "header_list \<Rightarrow> header_list" where
  "setNoCacheHeaders headers = headers_set headers ''Cache-Control'' ''no-store''"

definition setCorsHeaders :: "header_list \<Rightarrow> header_list" where
  "setCorsHeaders headers =
     headers_set
       (headers_set
          (headers_set headers ''Access-Control-Allow-Origin'' ''*'')
          ''Access-Control-Allow-Methods'' ''GET, POST, PUT, DELETE'')
       ''Access-Control-Allow-Headers'' ''*''"

subsection \<open>handleRedirect and handleHtmlContent (lines 95 to 131)\<close>

definition redirect_statuses :: "nat list" where
  "redirect_statuses = [301, 302, 303, 307, 308]"

definition handleRedirect ::
  "platform \<Rightarrow> response \<Rightarrow> request \<Rightarrow> string \<Rightarrow> js_error + response" where
  "handleRedirect p response request actualUrlStr =
     (case URL_parse p (js_string (headers_get (resp_headers response) ''location''))
             (Some actualUrlStr) of
        Inl e \<Rightarrow> Inl e
      | Inr location \<Rightarrow>
          (let modifiedLocation = ''/'' @ encodeURIComponent (url_href location) in
           case Response_new (StreamBody (resp_body response)) (resp_status response)
                  (resp_statusText response)
                  (object_literal
                     (spread_Headers (resp_headers response) @ [(''Location'', modifiedLocation)])) of
             Inl e \<Rightarrow> Inl e
           | Inr redirectResponse \<Rightarrow>
               Inr (if headers_has (resp_headers response) ''Set-Cookie''
                    then redirectResponse
                           \<lparr> resp_headers :=
                               headers_set (resp_headers redirectResponse) ''Set-Cookie''
                                 (js_string (headers_get (resp_headers response) ''Set-Cookie'')) \<rparr>
                    else redirectResponse)))"

definition handleHtmlContent ::
  "platform \<Rightarrow> response \<Rightarrow> string \<Rightarrow> string \<Rightarrow> string \<Rightarrow> js_error + string" where
  "handleHtmlContent p response protocol host actualUrlStr =
     (let originalText = response_text response in
      case URL_parse p actualUrlStr None of
        Inl e \<Rightarrow> Inl e
      | Inr target \<Rightarrow> Inr (replaceRelativePaths originalText protocol host (url_origin target)))"

subsection \<open>handleRequest (lines 5 to 87)\<close>

text \<open>The filter passed to \<open>filterHeaders\<close> (lines 28 to 30).\<close>

definition outbound_filter :: "string \<Rightarrow> bool" where
  "outbound_filter name = (\<not> startsWith name ''cf-'' \<and> toLowerCase name \<noteq> ''host'')"

text \<open>Lines 19 to 25: the target URL string, from the parsed URL of the inbound request.\<close>

definition targetUrlStr :: "url \<Rightarrow> js_error + string" where
  "targetUrlStr url =
     (case decodeURIComponent (replace_str (url_pathname url) ''/'' []) of
        Inl e \<Rightarrow> Inl e
      | Inr actualUrlStr \<Rightarrow>
          Inr (ensureProtocol actualUrlStr (url_protocol url) @ url_search url))"

text \<open>Lines 28 to 38: the header list of the outbound request.\<close>

definition outboundHeaders :: "platform \<Rightarrow> request \<Rightarrow> string \<Rightarrow> js_error + header_list" where
  "outboundHeaders p request actualUrlStr =
     (let newHeaders = filterHeaders (req_headers request) outbound_filter;
          newHeaders =
            (if headers_has (req_headers request) ''cookie''
             then headers_set newHeaders ''Cookie''
                    (js_string (headers_get (req_headers request) ''cookie''))
             else newHeaders)
      in case URL_parse p actualUrlStr None of
           Inl e \<Rightarrow> Inl e
         | Inr target \<Rightarrow> Inr (headers_set newHeaders ''Host'' (url_hostname target)))"

text \<open>
  Lines 51 to 80: from the upstream response to the response for the client. \<open>url\<close> is
  the parsed URL of the inbound request.
\<close>

definition proxyResponse ::
  "platform \<Rightarrow> request \<Rightarrow> url \<Rightarrow> string \<Rightarrow> response \<Rightarrow> js_error + response" where
  "proxyResponse p request url actualUrlStr response =
     (if resp_status response \<in> set redirect_statuses then
        handleRedirect p response request actualUrlStr
      else
        case (case headers_get (resp_headers response) ''Content-Type'' of
                None \<Rightarrow> Inr (StreamBody (resp_body response))
              | Some ct \<Rightarrow>
                  if str_includes ct ''text/html'' then
                    (case handleHtmlContent p response (url_protocol url) (url_host url)
                            actualUrlStr of
                       Inl e \<Rightarrow> Inl e
                     | Inr modifiedText \<Rightarrow> Inr (TextBody modifiedText))
                  else Inr (StreamBody (resp_body response))) of
          Inl e \<Rightarrow> Inl e
        | Inr responseBody \<Rightarrow>
            (case Response_new responseBody (resp_status response) (resp_statusText response)
                    (headers_entries (resp_headers response)) of
               Inl e \<Rightarrow> Inl e
             | Inr modifiedResponse \<Rightarrow>
                 (let h = resp_headers modifiedResponse;
                      h = (if headers_has (resp_headers response) ''Set-Cookie''
                           then headers_set h ''Set-Cookie''
                                  (js_string (headers_get (resp_headers response) ''Set-Cookie''))
                           else h);
                      h = setNoCacheHeaders h;
                      h = setCorsHeaders h
                  in Inr (modifiedResponse \<lparr> resp_headers := h \<rparr>))))"

text \<open>
  The body of the \<open>try\<close> block. The result carries the outbound requests that were
  fetched, in order, and either the response or the error that was raised.
\<close>

definition handleRequest_try :: "platform \<Rightarrow> request \<Rightarrow> request list \<times> (js_error + response)" where
  "handleRequest_try p request =
     (case URL_parse p (req_url request) None of
        Inl e \<Rightarrow> ([], Inl e)
      | Inr url \<Rightarrow>
          if url_pathname url = ''/'' then
            ([], Response_new (TextBody (getRootHtml p)) 200 []
                   (object_literal [(''Content-Type'', ''text/html; charset=utf-8'')]))
          else
            (case targetUrlStr url of
               Inl e \<Rightarrow> ([], Inl e)
             | Inr actualUrlStr \<Rightarrow>
                 (case outboundHeaders p request actualUrlStr of
                    Inl e \<Rightarrow> ([], Inl e)
                  | Inr newHeaders \<Rightarrow>
                      (case Request_new p actualUrlStr newHeaders (req_method request)
                              (req_body request) Manual of
                         Inl e \<Rightarrow> ([], Inl e)
                       | Inr modifiedRequest \<Rightarrow>
                           (case fetch p modifiedRequest of
                              Inl e \<Rightarrow> ([modifiedRequest], Inl e)
                            | Inr response \<Rightarrow>
                                ([modifiedRequest],
                                 proxyResponse p request url actualUrlStr response))))))"

text \<open>
  \<open>handleRequest\<close>: the \<open>try\<close> block with its \<open>catch\<close>. An \<open>Inl\<close> in the result would
  be an exception that leaves the handler.
\<close>

definition handleRequest :: "platform \<Rightarrow> request \<Rightarrow> request list \<times> (js_error + response)" where
  "handleRequest p request =
     (case handleRequest_try p request of
        (fetched, Inl error) \<Rightarrow> (fetched, jsonResponse [(''error'', message error)] 500)
      | (fetched, Inr response) \<Rightarrow> (fetched, Inr response))"

section \<open>A sample platform for the examples\<close>

text \<open>
  The examples below run the worker on a platform whose URL parser is a table of the few
  strings the examples use, each with the record the URL standard's parser gives for it,
  and whose network answers four target URLs. The proxy is served at
  \<open>https://proxy.example\<close>.
\<close>

definition mk_url :: "string \<Rightarrow> string \<Rightarrow> string \<Rightarrow> string option \<Rightarrow> url" where
  "mk_url sch h pth q =
     \<lparr> url_href = sch @ ''://'' @ h @ pth @ (case q of None \<Rightarrow> [] | Some x \<Rightarrow> CHR ''?'' # x),
       url_origin = sch @ ''://'' @ h, url_scheme = sch, url_hostname = h, url_port = [],
       url_pathname = pth, url_query = q \<rparr>"

definition sample_urls :: "((string \<times> string option) \<times> url) list" where
  "sample_urls =
     [((''https://proxy.example/'', None), mk_url ''https'' ''proxy.example'' ''/'' None),
      ((''https://proxy.example/https%3A%2F%2Fexample.com%2Fa%2Fb'', None),
         mk_url ''https'' ''proxy.example'' ''/https%3A%2F%2Fexample.com%2Fa%2Fb'' None),
      ((''https://proxy.example/example.com/page?x=1'', None),
         mk_url ''https'' ''proxy.example'' ''/example.com/page'' (Some ''x=1'')),
      ((''https://proxy.example/example.com/bad'', None),
         mk_url ''https'' ''proxy.example'' ''/example.com/bad'' None),
      ((''https://proxy.example/%'', None), mk_url ''https'' ''proxy.example'' ''/%'' None),
      ((''https://proxy.example/http:%2F%2F%5B'', None),
         mk_url ''https'' ''proxy.example'' ''/http:%2F%2F%5B'' None),
      ((''https://example.com/a/b'', None), mk_url ''https'' ''example.com'' ''/a/b'' None),
      ((''https://example.com/page?x=1'', None),
         mk_url ''https'' ''example.com'' ''/page'' (Some ''x=1'')),
      ((''https://example.com/bad'', None), mk_url ''https'' ''example.com'' ''/bad'' None),
      ((''/login'', Some ''https://example.com/a/b''),
         mk_url ''https'' ''example.com'' ''/login'' None),
      ((''https://proxy.example/https%3A%2F%2Fexample.com%2Fa%3Fx%3D1'', None),
         mk_url ''https'' ''proxy.example'' ''/https%3A%2F%2Fexample.com%2Fa%3Fx%3D1'' None),
      ((''https://example.com/a?x=1'', None), mk_url ''https'' ''example.com'' ''/a'' (Some ''x=1'')),
      ((''https://a$&b/example.com/page?x=1'', None),
         mk_url ''https'' ''a$&b'' ''/example.com/page'' (Some ''x=1''))]"

definition sample_URL_parse :: "string \<Rightarrow> string option \<Rightarrow> js_error + url" where
  "sample_URL_parse input base =
     (case map_of sample_urls (input, base) of
        Some u \<Rightarrow> Inr u
      | None \<Rightarrow> Inl (TypeError ''Invalid URL string.''))"

definition sample_html :: string where
  "sample_html = ''<img src='' @ [dquote] @ ''/logo.png'' @ [dquote] @ ''>''"

definition sample_redirect :: response where
  "sample_redirect =
     \<lparr> resp_status = 302, resp_statusText = ''Found'',
       resp_headers =
         [(''Location'', ''/login''), (''Server'', ''nginx''), (''Set-Cookie'', ''sid=1'')],
       resp_body = None \<rparr>"

definition sample_page :: response where
  "sample_page =
     \<lparr> resp_status = 200, resp_statusText = ''OK'',
       resp_headers =
         [(''Content-Type'', ''text/html; charset=utf-8''), (''Cache-Control'', ''max-age=60'')],
       resp_body = Some sample_html \<rparr>"

text \<open>A redirect whose \<open>Location\<close> is no URL: the IPv6 literal is not closed.\<close>

definition sample_bad_redirect :: response where
  "sample_bad_redirect =
     \<lparr> resp_status = 302, resp_statusText = ''Found'',
       resp_headers = [(''Location'', ''http://['')], resp_body = None \<rparr>"

definition sample_fetch :: "request \<Rightarrow> js_error + response" where
  "sample_fetch r =
     (if req_url r = ''https://example.com/a/b'' then Inr sample_redirect
      else if req_url r = ''https://example.com/page?x=1'' then Inr sample_page
      else if req_url r = ''https://example.com/a?x=1'' then Inr sample_page
      else if req_url r = ''https://example.com/bad'' then Inr sample_bad_redirect
      else Inl (NetworkError ''Network connection lost.''))"

definition sample_platform :: platform where
  "sample_platform =
     \<lparr> URL_parse = sample_URL_parse, fetch = sample_fetch, getRootHtml = ''<!DOCTYPE html>'' \<rparr>"

definition sample_headers :: header_list where
  "sample_headers =
     [(''Host'', ''proxy.example''), (''CF-Ray'', ''8a1b2c3d''), (''Cookie'', ''sid=1''),
      (''Accept'', ''*/*'')]"

definition sample_request :: "string \<Rightarrow> string \<Rightarrow> string option \<Rightarrow> request" where
  "sample_request u m b =
     \<lparr> req_url = u, req_method = m, req_headers = sample_headers, req_body = b,
       req_redirect = Follow \<rparr>"

text \<open>The outbound request the worker builds from \<open>sample_request\<close> for the target \<open>u\<close>.\<close>

definition sample_outbound :: "string \<Rightarrow> request" where
  "sample_outbound u =
     \<lparr> req_url = u, req_method = ''GET'',
       req_headers = [(''accept'', ''*/*''), (''cookie'', ''sid=1''), (''Host'', ''example.com'')],
       req_body = None, req_redirect = Manual \<rparr>"

text \<open>
  The response of the \<open>catch\<close> block for an error whose message \<open>msg\<close> needs no
  escape: the body is \<open>{"error":"msg"}\<close>.
\<close>

definition error_response :: "string \<Rightarrow> response" where
  "error_response msg =
     \<lparr> resp_status = 500, resp_statusText = [],
       resp_headers = [(''Content-Type'', ''application/json; charset=utf-8'')],
       resp_body =
         Some ([CHR ''{'', CHR 0x22] @ ''error'' @ [CHR 0x22, CHR '':'', CHR 0x22] @ msg
                 @ [CHR 0x22, CHR ''}'']) \<rparr>"

text \<open>
  A request to the worker served at the host \<open>a$&b\<close>. The host parser of the URL
  standard forbids neither \<open>$\<close> nor \<open>&\<close> in a domain.
\<close>

definition dollar_host_request :: request where
  "dollar_host_request =
     \<lparr> req_url = ''https://a$&b/example.com/page?x=1'', req_method = ''GET'',
       req_headers = [(''Host'', ''a$&b''), (''Accept'', ''*/*'')], req_body = None,
       req_redirect = Follow \<rparr>"

section \<open>Header lists as an iteration returns them\<close>

text \<open>
  The shape of a header list that comes out of an iteration: the names are lower-case and
  sorted, and a name other than \<open>set-cookie\<close> occurs once.
\<close>

definition iterated :: "header_list \<Rightarrow> bool" where
  "iterated h =
     ((\<forall>x \<in> set h. toLowerCase (fst x) = fst x) \<and> sorted (map fst h) \<and>
      (\<forall>k. k \<noteq> ''set-cookie'' \<longrightarrow> length (filter (\<lambda>x. fst x = k) h) \<le> 1))"

section \<open>Properties of header lists\<close>

lemma lower_char_idem [simp]: "lower_char (lower_char c) = lower_char c"
  unfolding lower_char_def less_eq_char_def by auto

lemma toLowerCase_idem [simp]: "toLowerCase (toLowerCase s) = toLowerCase s"
  by (simp add: toLowerCase_def)

lemma name_eq_refl [simp]: "name_eq n n"
  by (simp add: name_eq_def)

lemma name_eq_sym: "name_eq a b = name_eq b a"
  by (auto simp: name_eq_def)

lemma name_eq_trans: "name_eq a b \<Longrightarrow> name_eq b c \<Longrightarrow> name_eq a c"
  by (simp add: name_eq_def)

lemma name_eq_lower [simp]: "name_eq (toLowerCase a) b = name_eq a b"
  by (simp add: name_eq_def)

lemma headers_has_values: "headers_has h n = (header_values h n \<noteq> [])"
  by (induction h) (auto simp: headers_has_def header_values_def)

lemma headers_get_values:
  "headers_get h n = (if header_values h n = [] then None else Some (join_values (header_values h n)))"
  by (simp add: headers_get_def headers_has_values)

lemma values_Nil [simp]: "header_values [] n = []"
  by (simp add: header_values_def)

lemma name_eq_other: "name_eq k n \<Longrightarrow> \<not> name_eq m n \<Longrightarrow> \<not> name_eq k m"
  by (simp add: name_eq_def)

lemma name_eq_other': "\<not> name_eq m n \<Longrightarrow> \<not> name_eq n m"
  by (auto simp: name_eq_def)

lemma values_append [simp]:
  "header_values (h @ h') n = header_values h n @ header_values h' n"
  by (simp add: header_values_def)

lemma values_Cons:
  "header_values ((k, w) # h) n = (if name_eq k n then w # header_values h n else header_values h n)"
  by (simp add: header_values_def)

lemma values_filter_out [simp]:
  "header_values (filter (\<lambda>(k', w'). \<not> name_eq k' n) h) n = []"
  by (induction h) (auto simp: header_values_def)

lemma values_filter_other:
  "\<not> name_eq m n \<Longrightarrow> header_values (filter (\<lambda>(k', w'). \<not> name_eq k' n) h) m = header_values h m"
  by (induction h) (auto simp: values_Cons dest: name_eq_other)

lemma values_set_first_same:
  "header_values h n \<noteq> [] \<Longrightarrow> header_values (set_first h n v) n = [v]"
  by (induction h n v rule: set_first.induct) (auto simp: values_Cons)

lemma values_set_first_other:
  "\<not> name_eq m n \<Longrightarrow> header_values (set_first h n v) m = header_values h m"
  by (induction h n v rule: set_first.induct)
     (auto simp: values_Cons values_filter_other dest: name_eq_other)

lemma values_set_same [simp]: "header_values (headers_set h n v) n = [v]"
  by (simp add: headers_set_def headers_has_values values_set_first_same values_Cons)

lemma values_set_other:
  "\<not> name_eq m n \<Longrightarrow> header_values (headers_set h n v) m = header_values h m"
  by (auto simp: headers_set_def values_set_first_other values_Cons dest: name_eq_other')

lemma get_set_same [simp]: "headers_get (headers_set h n v) n = Some v"
  by (simp add: headers_get_values)

lemma get_set_other:
  "\<not> name_eq m n \<Longrightarrow> headers_get (headers_set h n v) m = headers_get h m"
  by (simp add: headers_get_values values_set_other)

lemma has_set_other:
  "\<not> name_eq m n \<Longrightarrow> headers_has (headers_set h n v) m = headers_has h m"
  by (simp add: headers_has_values values_set_other)

lemma append_values:
  "header_values (headers_append h k v) n =
     header_values h n @ (if name_eq k n then [v] else [])"
proof (cases "find (\<lambda>(k', w). name_eq k' k) h")
  case None
  then show ?thesis by (simp add: headers_append_def values_Cons)
next
  case (Some a)
  then obtain k' w where a: "a = (k', w)" and "name_eq k' k"
    by (cases a) (auto simp: find_Some_iff)
  then have "name_eq k' n = name_eq k n" by (auto simp: name_eq_def)
  with Some a show ?thesis by (simp add: headers_append_def values_Cons)
qed

lemma foldl_append_values:
  "header_values (foldl (\<lambda>h (n, v). headers_append h n v) acc init) n
     = header_values acc n @ header_values init n"
  by (induction init arbitrary: acc) (auto simp: append_values values_Cons)

lemma values_new_Headers [simp]: "header_values (new_Headers init) n = header_values init n"
  by (simp add: new_Headers_def foldl_append_values)

lemma get_new_Headers [simp]: "headers_get (new_Headers init) n = headers_get init n"
  by (simp add: headers_get_values)

lemma has_new_Headers [simp]: "headers_has (new_Headers init) n = headers_has init n"
  by (simp add: headers_has_values)

lemma headers_has_get: "headers_has h n = (headers_get h n \<noteq> None)"
  by (simp add: headers_get_def)

lemma new_Headers_single [simp]: "new_Headers [(n, v)] = [(n, v)]"
  by (simp add: new_Headers_def headers_append_def)

lemma object_literal_single [simp]: "object_literal [(k, v)] = [(k, v)]"
  by (simp add: object_literal_def)

lemma headers_has_single [simp]: "headers_has [(n, v)] n"
  by (simp add: headers_has_def)

section \<open>Properties of the constructors\<close>

lemma Response_new_text_typed:
  "200 \<le> st \<Longrightarrow> st \<le> 599 \<Longrightarrow> \<not> null_body_status st \<Longrightarrow>
   Response_new (TextBody t) st stText [(''Content-Type'', ct)] =
     Inr \<lparr> resp_status = st, resp_statusText = stText,
           resp_headers = [(''Content-Type'', ct)], resp_body = Some t \<rparr>"
  by (simp add: Response_new_def body_content_def)


section \<open>Properties of the handler\<close>

lemma Request_new_url:
  "Request_new p input hs m b r = Inr outbound \<Longrightarrow>
   req_url outbound = input \<and> req_headers outbound = new_Headers hs \<and>
   req_method outbound = m \<and> req_body outbound = b \<and> req_redirect outbound = r"
  by (auto simp: Request_new_def split: sum.splits if_splits)

lemma handleRequest_fetched: "fst (handleRequest p request) = fst (handleRequest_try p request)"
  by (cases "handleRequest_try p request") (auto simp: handleRequest_def split: sum.splits)

lemma handleRequest_try_fetched:
  assumes "fst (handleRequest_try p request) = [outbound]"
  obtains url hs where
    "URL_parse p (req_url request) None = Inr url"
    "url_pathname url \<noteq> ''/''"
    "targetUrlStr url = Inr (req_url outbound)"
    "outboundHeaders p request (req_url outbound) = Inr hs"
    "Request_new p (req_url outbound) hs (req_method request) (req_body request) Manual
       = Inr outbound"
    "snd (handleRequest_try p request) =
       (case fetch p outbound of
          Inl e \<Rightarrow> Inl e
        | Inr response \<Rightarrow> proxyResponse p request url (req_url outbound) response)"
proof -
  from assms obtain url actualUrlStr hs where
    parse: "URL_parse p (req_url request) None = Inr url" and
    path: "url_pathname url \<noteq> ''/''" and
    target: "targetUrlStr url = Inr actualUrlStr" and
    hs: "outboundHeaders p request actualUrlStr = Inr hs" and
    req: "Request_new p actualUrlStr hs (req_method request) (req_body request) Manual
            = Inr outbound"
    by (auto simp: handleRequest_try_def split: sum.splits if_splits)
  from req have u: "actualUrlStr = req_url outbound"
    by (simp add: Request_new_url)
  from parse path target hs req
  have "snd (handleRequest_try p request) =
       (case fetch p outbound of
          Inl e \<Rightarrow> Inl e
        | Inr response \<Rightarrow> proxyResponse p request url actualUrlStr response)"
    by (simp add: handleRequest_try_def split: sum.splits)
  with parse path target hs req show thesis
    unfolding u by (intro that [of url hs])
qed

lemma redirect_status_ok:
  "st \<in> set redirect_statuses \<Longrightarrow> 200 \<le> st \<and> st \<le> 599 \<and> \<not> null_body_status st"
  by (auto simp: redirect_statuses_def null_body_status_def)

lemma Response_new_stream:
  "200 \<le> st \<Longrightarrow> st \<le> 599 \<Longrightarrow> \<not> null_body_status st \<Longrightarrow>
   Response_new (StreamBody b) st stText hinit =
     Inr \<lparr> resp_status = st, resp_statusText = stText,
           resp_headers = new_Headers hinit, resp_body = b \<rparr>"
  by (simp add: Response_new_def body_content_def)

lemma not_name_eq_Location_SetCookie: "\<not> name_eq ''Location'' ''Set-Cookie''"
  by code_simp

lemma no_SetCookie_in_Location: "\<not> headers_has [(''Location'', v)] ''Set-Cookie''"
  by (simp add: headers_has_def not_name_eq_Location_SetCookie)

lemma handleRedirect_result:
  assumes "resp_status response \<in> set redirect_statuses"
    and "URL_parse p (js_string (headers_get (resp_headers response) ''location''))
           (Some actualUrlStr) = Inr location"
  shows "handleRedirect p response request actualUrlStr =
     Inr \<lparr> resp_status = resp_status response, resp_statusText = resp_statusText response,
           resp_headers =
             (''Location'', ''/'' @ encodeURIComponent (url_href location)) #
             (case headers_get (resp_headers response) ''Set-Cookie'' of
                None \<Rightarrow> [] | Some v \<Rightarrow> [(''Set-Cookie'', v)]),
           resp_body = resp_body response \<rparr>"
  using assms redirect_status_ok [OF assms(1)]
  by (cases "headers_has (resp_headers response) ''Set-Cookie''")
     (simp_all add: handleRedirect_def Response_new_stream spread_Headers_def Let_def
        headers_get_def headers_set_def js_string_def no_SetCookie_in_Location)

lemma values_name_cong: "name_eq a b \<Longrightarrow> header_values h a = header_values h b"
  by (induction h) (auto simp: values_Cons name_eq_def)

lemma get_name_cong: "name_eq a b \<Longrightarrow> headers_get h a = headers_get h b"
  by (simp add: headers_get_values values_name_cong)

lemma name_eq_Location: "name_eq ''location'' ''Location''"
  by code_simp

text \<open>The response of the handler to an upstream redirect whose \<open>Location\<close> resolves.\<close>

lemma handleRequest_redirect:
  assumes "fst (handleRequest p request) = [outbound]"
    and "fetch p outbound = Inr upstream"
    and "resp_status upstream \<in> set redirect_statuses"
    and "headers_get (resp_headers upstream) ''Location'' = Some loc"
    and "URL_parse p loc (Some (req_url outbound)) = Inr location"
  shows "snd (handleRequest p request) =
     Inr \<lparr> resp_status = resp_status upstream, resp_statusText = resp_statusText upstream,
           resp_headers =
             (''Location'', ''/'' @ encodeURIComponent (url_href location)) #
             (case headers_get (resp_headers upstream) ''Set-Cookie'' of
                None \<Rightarrow> [] | Some v \<Rightarrow> [(''Set-Cookie'', v)]),
           resp_body = resp_body upstream \<rparr>"
proof -
  from assms(1) have "fst (handleRequest_try p request) = [outbound]"
    by (simp add: handleRequest_fetched)
  then obtain url where
    tryres: "snd (handleRequest_try p request) =
            (case fetch p outbound of
               Inl e \<Rightarrow> Inl e
             | Inr response \<Rightarrow> proxyResponse p request url (req_url outbound) response)"
    by (rule handleRequest_try_fetched)
  from assms(4) have "headers_get (resp_headers upstream) ''location'' = Some loc"
    by (simp add: get_name_cong [OF name_eq_Location])
  with assms(5)
  have "URL_parse p (js_string (headers_get (resp_headers upstream) ''location''))
          (Some (req_url outbound)) = Inr location"
    by (simp add: js_string_def)
  from handleRedirect_result [OF assms(3) this, of request] tryres assms(2,3)
  have "snd (handleRequest_try p request) =
     Inr \<lparr> resp_status = resp_status upstream, resp_statusText = resp_statusText upstream,
           resp_headers =
             (''Location'', ''/'' @ encodeURIComponent (url_href location)) #
             (case headers_get (resp_headers upstream) ''Set-Cookie'' of
                None \<Rightarrow> [] | Some v \<Rightarrow> [(''Set-Cookie'', v)]),
           resp_body = resp_body upstream \<rparr>"
    by (simp add: proxyResponse_def)
  then show ?thesis
    by (cases "handleRequest_try p request") (auto simp: handleRequest_def)
qed

lemma get_Location_first:
  "headers_get ((''Location'', v) #
      (case c of None \<Rightarrow> [] | Some w \<Rightarrow> [(''Set-Cookie'', w)])) ''Location'' = Some v"
  by (cases c)
     (simp_all add: headers_get_values values_Cons not_name_eq_Location_SetCookie name_eq_other')

lemma not_name_eq_cors:
  "\<not> name_eq ''Access-Control-Allow-Origin'' ''Access-Control-Allow-Methods''"
  "\<not> name_eq ''Access-Control-Allow-Origin'' ''Access-Control-Allow-Headers''"
  "\<not> name_eq ''Cache-Control'' ''Access-Control-Allow-Origin''"
  "\<not> name_eq ''Cache-Control'' ''Access-Control-Allow-Methods''"
  "\<not> name_eq ''Cache-Control'' ''Access-Control-Allow-Headers''"
  by code_simp+

lemma get_after_finalizer:
  "headers_get (setCorsHeaders (setNoCacheHeaders h)) ''Access-Control-Allow-Origin'' = Some ''*''"
  "headers_get (setCorsHeaders (setNoCacheHeaders h)) ''Cache-Control'' = Some ''no-store''"
  by (simp_all add: setCorsHeaders_def setNoCacheHeaders_def get_set_other not_name_eq_cors)

lemma proxyResponse_finalized:
  assumes "resp_status upstream \<notin> set redirect_statuses"
    and "proxyResponse p request url actualUrlStr upstream = Inr r"
  shows "\<exists>h. resp_headers r = setCorsHeaders (setNoCacheHeaders h)"
  using assms
  by (auto simp: proxyResponse_def Let_def split: sum.splits if_splits option.splits)

lemma handleRequest_try_Inr:
  "snd (handleRequest_try p request) = Inr r \<Longrightarrow> snd (handleRequest p request) = Inr r"
  by (cases "handleRequest_try p request") (auto simp: handleRequest_def)

section \<open>The worker on the sample platform\<close>

lemma sample_run_redirect:
  "handleRequest sample_platform
     (sample_request ''https://proxy.example/https%3A%2F%2Fexample.com%2Fa%2Fb'' ''GET'' None) =
   ([sample_outbound ''https://example.com/a/b''],
    Inr \<lparr> resp_status = 302, resp_statusText = ''Found'',
          resp_headers =
            [(''Location'', ''/https%3A%2F%2Fexample.com%2Flogin''), (''Set-Cookie'', ''sid=1'')],
          resp_body = None \<rparr>)"
  by code_simp

lemma sample_try_page:
  "handleRequest_try sample_platform
     (sample_request ''https://proxy.example/example.com/page?x=1'' ''GET'' None) =
   ([sample_outbound ''https://example.com/page?x=1''],
    Inr \<lparr> resp_status = 200, resp_statusText = ''OK'',
          resp_headers =
            [(''cache-control'', ''no-store''),
             (''content-type'', ''text/html; charset=utf-8''),
             (''Access-Control-Allow-Origin'', ''*''),
             (''Access-Control-Allow-Methods'', ''GET, POST, PUT, DELETE''),
             (''Access-Control-Allow-Headers'', ''*'')],
          resp_body =
            Some (''<img src='' @ [dquote] @ ''https://proxy.example/logo.png''
                    @ [dquote] @ ''>'') \<rparr>)"
  by code_simp

lemma sample_run_page:
  "fst (handleRequest sample_platform
     (sample_request ''https://proxy.example/example.com/page?x=1'' ''GET'' None)) =
   [sample_outbound ''https://example.com/page?x=1'']"
  by (simp add: handleRequest_fetched sample_try_page)

lemma sample_run_bad_location:
  "handleRequest sample_platform
     (sample_request ''https://proxy.example/example.com/bad'' ''GET'' None) =
   ([sample_outbound ''https://example.com/bad''], Inr (error_response ''Invalid URL string.''))"
  by code_simp

lemma sample_run_malformed:
  "handleRequest sample_platform (sample_request ''https://proxy.example/%'' ''GET'' None) =
   ([], Inr (error_response ''URI malformed''))"
  by code_simp

lemma sample_run_root:
  "handleRequest sample_platform (sample_request ''https://proxy.example/'' ''POST'' (Some ''a=1'')) =
   ([], Inr \<lparr> resp_status = 200, resp_statusText = [],
              resp_headers = [(''Content-Type'', ''text/html; charset=utf-8'')],
              resp_body = Some (getRootHtml sample_platform) \<rparr>)"
  by code_simp

lemma sample_fetch_redirect:
  "fetch sample_platform (sample_outbound ''https://example.com/a/b'') = Inr sample_redirect"
  by code_simp

lemma sample_fetch_page:
  "fetch sample_platform (sample_outbound ''https://example.com/page?x=1'') = Inr sample_page"
  by code_simp

lemma sample_fetch_bad:
  "fetch sample_platform (sample_outbound ''https://example.com/bad'') = Inr sample_bad_redirect"
  by code_simp

lemma sample_parse_login:
  "URL_parse sample_platform ''/login'' (Some (req_url (sample_outbound ''https://example.com/a/b'')))
     = Inr (mk_url ''https'' ''example.com'' ''/login'' None)"
  by code_simp

lemma sample_parse_bad:
  "URL_parse sample_platform ''http://['' (Some (req_url (sample_outbound ''https://example.com/bad'')))
     = Inl (TypeError ''Invalid URL string.'')"
  by code_simp

section \<open>Iterating and filtering header lists\<close>

lemma split_least_key:
  "sorted (map fst h) \<Longrightarrow> \<forall>x \<in> set h. n \<le> fst x \<Longrightarrow>
   filter (\<lambda>x. fst x = n) h @ filter (\<lambda>x. fst x \<noteq> n) h = (h :: (string \<times> 'v) list)"
proof (induction h)
  case Nil
  then show ?case by simp
next
  case (Cons x h)
  show ?case
  proof (cases "fst x = n")
    case True
    with Cons show ?thesis by simp
  next
    case False
    with Cons.prems have "n < fst x" by auto
    with Cons.prems have "\<forall>y \<in> set h. fst y \<noteq> n" by fastforce
    then have "filter (\<lambda>x. fst x = n) h = []" "filter (\<lambda>x. fst x \<noteq> n) h = h"
      by (simp_all add: filter_empty_conv filter_id_conv)
    with False show ?thesis by simp
  qed
qed

text \<open>Grouping a list that is sorted by its keys, by these keys in their order, changes nothing.\<close>

lemma group_sorted:
  "sorted ks \<Longrightarrow> distinct ks \<Longrightarrow> sorted (map fst h) \<Longrightarrow> fst ` set h \<subseteq> set ks \<Longrightarrow>
   concat (map (\<lambda>n. filter (\<lambda>x. fst x = n) h) ks) = (h :: (string \<times> 'v) list)"
proof (induction ks arbitrary: h)
  case Nil
  then show ?case by simp
next
  case (Cons n ks)
  let ?rest = "filter (\<lambda>x. fst x \<noteq> n) h"
  have least: "\<forall>x \<in> set h. n \<le> fst x"
    using Cons.prems(1,4) by auto
  have 1: "map (\<lambda>m. filter (\<lambda>x. fst x = m) h) ks = map (\<lambda>m. filter (\<lambda>x. fst x = m) ?rest) ks"
    using Cons.prems(2) by (auto intro!: filter_cong)
  have 2: "concat (map (\<lambda>m. filter (\<lambda>x. fst x = m) ?rest) ks) = ?rest"
  proof (rule Cons.IH)
    show "sorted ks" "distinct ks" using Cons.prems by simp_all
    show "sorted (map fst ?rest)" using Cons.prems(3) by (rule sorted_filter)
    show "fst ` set ?rest \<subseteq> set ks" using Cons.prems(4) by auto
  qed
  have "concat (map (\<lambda>m. filter (\<lambda>x. fst x = m) h) (n # ks))
          = filter (\<lambda>x. fst x = n) h @ concat (map (\<lambda>m. filter (\<lambda>x. fst x = m) h) ks)"
    by simp
  also have "\<dots> = filter (\<lambda>x. fst x = n) h @ ?rest"
    by (simp only: 1 2)
  also have "\<dots> = h"
    by (rule split_least_key [OF Cons.prems(3) least])
  finally show ?case .
qed

lemma lower_name_eq:
  "toLowerCase k = k \<Longrightarrow> toLowerCase n = n \<Longrightarrow> name_eq k n = (k = n)"
  by (auto simp: name_eq_def)

lemma values_lower:
  assumes "\<forall>x \<in> set h. toLowerCase (fst x) = fst x" and "toLowerCase n = n"
  shows "header_values h n = map snd (filter (\<lambda>x. fst x = n) h)"
proof -
  have "filter (\<lambda>(k, v). name_eq k n) h = filter (\<lambda>x. fst x = n) h"
    using assms by (intro filter_cong) (auto simp: lower_name_eq)
  then show ?thesis by (simp add: header_values_def)
qed

lemma pair_key_group: "map (Pair n) (map snd (filter (\<lambda>x. fst x = n) h)) = filter (\<lambda>x. fst x = n) h"
  by (induction h) auto

lemma combine_name_iterated:
  assumes "iterated h" and "n \<in> fst ` set h"
  shows "combine_name h n = filter (\<lambda>x. fst x = n) h"
proof -
  from assms have low: "\<forall>x \<in> set h. toLowerCase (fst x) = fst x" and n: "toLowerCase n = n"
    by (auto simp: iterated_def)
  note vals = values_lower [OF low n]
  have grp: "map (Pair n) (header_values h n) = filter (\<lambda>x. fst x = n) h"
    by (simp only: vals pair_key_group)
  show ?thesis
  proof (cases "n = ''set-cookie''")
    case True
    with grp show ?thesis by (simp add: combine_name_def)
  next
    case False
    with assms(1) have "length (filter (\<lambda>x. fst x = n) h) \<le> 1"
      by (simp add: iterated_def)
    moreover from assms(2) have "filter (\<lambda>x. fst x = n) h \<noteq> []"
      by (auto simp: filter_empty_conv)
    ultimately obtain x where x: "filter (\<lambda>x. fst x = n) h = [x]"
      by (cases "filter (\<lambda>x. fst x = n) h") auto
    then have "x \<in> set (filter (\<lambda>x. fst x = n) h)" by simp
    then have "fst x = n" by simp
    with x False show ?thesis
      by (cases x) (simp add: combine_name_def vals)
  qed
qed

lemma sorted_names_iterated:
  assumes "iterated h"
  shows "sorted_names h = remdups (map fst h)"
proof -
  from assms have eq: "map (\<lambda>(k, v). toLowerCase k) h = map fst h"
    by (auto simp: iterated_def)
  from assms have "sorted (remdups (map fst h))"
    by (simp add: iterated_def)
  then have "sort (remdups (map fst h)) = remdups (map fst h)"
    by (rule sorted_sort_id)
  then show ?thesis
    by (simp only: sorted_names_def eq)
qed

lemma entries_iterated: "iterated h \<Longrightarrow> headers_entries h = h"
proof -
  assume it: "iterated h"
  have 1: "map (combine_name h) (remdups (map fst h))
          = map (\<lambda>n. filter (\<lambda>x. fst x = n) h) (remdups (map fst h))"
    using it by (auto intro!: combine_name_iterated)
  have 2: "concat (map (\<lambda>n. filter (\<lambda>x. fst x = n) h) (remdups (map fst h))) = h"
    using it by (intro group_sorted) (auto simp: iterated_def)
  show ?thesis
    by (simp only: headers_entries_def sorted_names_iterated [OF it] 1 2)
qed

lemma fst_combine_name: "x \<in> set (combine_name h n) \<Longrightarrow> fst x = n"
  by (auto simp: combine_name_def split: if_splits)

lemma sorted_names_props:
  "sorted (sorted_names h)" "distinct (sorted_names h)"
  "set (sorted_names h) = (\<lambda>x. toLowerCase (fst x)) ` set h"
  by (auto simp: sorted_names_def case_prod_beta)

lemma sorted_groups:
  "sorted ks \<Longrightarrow> sorted (map fst (concat (map (combine_name h) ks)))"
proof (induction ks)
  case Nil
  then show ?case by simp
next
  case (Cons n ks)
  have "\<forall>x \<in> set (combine_name h n). fst x = n"
    by (simp add: fst_combine_name)
  then have "sorted (map fst (combine_name h n))"
    by (induction "combine_name h n") (auto simp: sorted_iff_nth_mono nth_Cons split: nat.splits)
  with Cons show ?case
    by (auto simp: sorted_append dest!: fst_combine_name)
qed

lemma group_once:
  "distinct ks \<Longrightarrow> k \<noteq> ''set-cookie'' \<Longrightarrow>
   length (filter (\<lambda>x. fst x = k) (concat (map (combine_name h) ks))) \<le> 1"
proof (induction ks)
  case Nil
  then show ?case by simp
next
  case (Cons n ks)
  show ?case
  proof (cases "n = k")
    case True
    with Cons.prems have "k \<notin> set ks" by simp
    then have "filter (\<lambda>x. fst x = k) (concat (map (combine_name h) ks)) = []"
      by (auto simp: filter_empty_conv dest: fst_combine_name)
    moreover have "length (filter (\<lambda>x. fst x = k) (combine_name h k)) \<le> length (combine_name h k)"
      by (rule length_filter_le)
    moreover have "length (combine_name h k) = 1"
      using Cons.prems(2) by (simp add: combine_name_def)
    ultimately show ?thesis
      using True by simp
  next
    case False
    then have "filter (\<lambda>x. fst x = k) (combine_name h n) = []"
      by (auto simp: filter_empty_conv dest: fst_combine_name)
    with Cons show ?thesis by simp
  qed
qed

lemma iterated_entries: "iterated (headers_entries h)"
  unfolding iterated_def headers_entries_def
proof (intro conjI allI impI ballI)
  fix x assume "x \<in> set (concat (map (combine_name h) (sorted_names h)))"
  then obtain n where "n \<in> set (sorted_names h)" "fst x = n"
    by (auto dest: fst_combine_name)
  then show "toLowerCase (fst x) = fst x"
    by (auto simp: sorted_names_props)
next
  show "sorted (map fst (concat (map (combine_name h) (sorted_names h))))"
    by (simp add: sorted_groups sorted_names_props)
next
  fix k :: string assume "k \<noteq> ''set-cookie''"
  then show "length (filter (\<lambda>x. fst x = k) (concat (map (combine_name h) (sorted_names h)))) \<le> 1"
    by (rule group_once [OF sorted_names_props(2)])
qed

lemma iterated_filter:
  assumes "iterated h"
  shows "iterated (filter P h)"
proof -
  from assms have low: "\<forall>x \<in> set h. toLowerCase (fst x) = fst x"
    and srt: "sorted (map fst h)"
    and once: "\<And>k. k \<noteq> ''set-cookie'' \<Longrightarrow> length (filter (\<lambda>x. fst x = k) h) \<le> 1"
    by (simp_all add: iterated_def)
  have "length (filter (\<lambda>x. fst x = k) (filter P h)) \<le> 1" if k: "k \<noteq> ''set-cookie''" for k
  proof -
    have e: "filter (\<lambda>x. fst x = k) (filter P h) = filter P (filter (\<lambda>x. fst x = k) h)"
      by (induction h) simp_all
    have "length (filter P (filter (\<lambda>x. fst x = k) h)) \<le> length (filter (\<lambda>x. fst x = k) h)"
      by (rule length_filter_le)
    from this once [OF k] show ?thesis
      unfolding e by (rule le_trans)
  qed
  moreover from low have "\<forall>x \<in> set (filter P h). toLowerCase (fst x) = fst x"
    by simp
  moreover from srt have "sorted (map fst (filter P h))"
    by (rule sorted_filter)
  ultimately show ?thesis
    unfolding iterated_def by blast
qed

lemma foldl_append_lower:
  "\<forall>x \<in> set acc \<union> set init. toLowerCase (fst x) = fst x \<Longrightarrow>
   foldl (\<lambda>h (n, v). headers_append h n v) acc init = acc @ init"
proof (induction init arbitrary: acc)
  case Nil
  then show ?case by simp
next
  case (Cons x init)
  obtain n v where x: "x = (n, v)" by (cases x)
  have "headers_append acc n v = acc @ [(n, v)]"
  proof (cases "find (\<lambda>(k, w). name_eq k n) acc")
    case None
    then show ?thesis by (simp add: headers_append_def)
  next
    case (Some a)
    then have "a \<in> set acc" "name_eq (fst a) n"
      by (auto simp: find_Some_iff in_set_conv_nth case_prod_beta)
    with Cons.prems x have "fst a = n"
      by (auto simp: lower_name_eq)
    with Some show ?thesis
      by (cases a) (simp add: headers_append_def)
  qed
  with Cons x show ?case by simp
qed

lemma new_Headers_iterated: "iterated h \<Longrightarrow> new_Headers h = h"
  by (simp add: new_Headers_def foldl_append_lower iterated_def)

lemma filterHeaders_iterated: "iterated (filterHeaders h f)"
  by (simp add: filterHeaders_def new_Headers_iterated iterated_filter iterated_entries)

lemma filterHeaders_eq:
  "filterHeaders h f = filter (\<lambda>(name, value). f name) (headers_entries h)"
  by (simp add: filterHeaders_def new_Headers_iterated iterated_filter iterated_entries)

lemma filterHeaders_idem: "filterHeaders (filterHeaders h f) f = filterHeaders h f"
proof -
  have "headers_entries (filterHeaders h f) = filterHeaders h f"
    by (rule entries_iterated) (rule filterHeaders_iterated)
  then have "filterHeaders (filterHeaders h f) f
               = filter (\<lambda>(name, value). f name) (filterHeaders h f)"
    by (simp add: filterHeaders_eq [of "filterHeaders h f"])
  also have "\<dots> = filterHeaders h f"
    by (simp add: filterHeaders_eq [of h])
  finally show ?thesis .
qed

section \<open>The claims\<close>

subsection \<open>Protocol normalisation\<close>

text \<open>
  C6. For every target string \<open>t\<close> and every inbound URL \<open>u\<close>: \<open>ensureProtocol\<close> returns
  \<open>t\<close> unchanged when \<open>t\<close> starts with \<open>http://\<close> or \<open>https://\<close>; otherwise it returns the
  inbound scheme, \<open>://\<close> and \<open>t\<close>, a URL string whose scheme is the scheme of the inbound
  request.
\<close>

theorem ensureProtocol_normalises:
  "(startsWith t ''http://'' \<or> startsWith t ''https://'' \<longrightarrow>
      ensureProtocol t (url_protocol u) = t) \<and>
   (\<not> (startsWith t ''http://'' \<or> startsWith t ''https://'') \<longrightarrow>
      ensureProtocol t (url_protocol u) = url_scheme u @ ''://'' @ t)"
  by (simp add: ensureProtocol_def url_protocol_def)

theorem ensureProtocol_normalises_witness:
  "startsWith ''http://example.com/a'' ''http://'' \<and>
   ensureProtocol ''http://example.com/a''
     (url_protocol (mk_url ''https'' ''proxy.example'' ''/x'' None)) = ''http://example.com/a'' \<and>
   \<not> (startsWith ''example.com/a'' ''http://'' \<or> startsWith ''example.com/a'' ''https://'') \<and>
   ensureProtocol ''example.com/a''
     (url_protocol (mk_url ''https'' ''proxy.example'' ''/x'' None)) = ''https://example.com/a''"
  using ensureProtocol_normalises
          [of "''http://example.com/a''" "mk_url ''https'' ''proxy.example'' ''/x'' None"]
        ensureProtocol_normalises
          [of "''example.com/a''" "mk_url ''https'' ''proxy.example'' ''/x'' None"]
  by (simp add: startsWith_def mk_url_def)

subsection \<open>The landing page\<close>

text \<open>
  C5. When the URL of the inbound request parses and its path is exactly \<open>/\<close>, then,
  whatever the method, headers and body of the request, the handler fetches nothing and
  returns status 200 with \<open>Content-Type: text/html; charset=utf-8\<close> and the landing page
  as body.
\<close>

theorem root_path_static_page:
  assumes "URL_parse p (req_url request) None = Inr url"
    and "url_pathname url = ''/''"
  shows "handleRequest p request =
     ([], Inr \<lparr> resp_status = 200, resp_statusText = [],
                resp_headers = [(''Content-Type'', ''text/html; charset=utf-8'')],
                resp_body = Some (getRootHtml p) \<rparr>)"
  using assms
  by (simp add: handleRequest_def handleRequest_try_def Response_new_text_typed
        null_body_status_def)

lemma sample_parse_root:
  "URL_parse sample_platform ''https://proxy.example/'' None
     = Inr (mk_url ''https'' ''proxy.example'' ''/'' None)"
  by (simp add: sample_platform_def sample_URL_parse_def sample_urls_def)

theorem root_path_static_page_witness:
  "URL_parse sample_platform (req_url (sample_request ''https://proxy.example/'' ''POST'' (Some ''a=1''))) None
     = Inr (mk_url ''https'' ''proxy.example'' ''/'' None) \<and>
   url_pathname (mk_url ''https'' ''proxy.example'' ''/'' None) = ''/'' \<and>
   handleRequest sample_platform (sample_request ''https://proxy.example/'' ''POST'' (Some ''a=1'')) =
     ([], Inr \<lparr> resp_status = 200, resp_statusText = [],
                resp_headers = [(''Content-Type'', ''text/html; charset=utf-8'')],
                resp_body = Some (getRootHtml sample_platform) \<rparr>)"
proof -
  have parse: "URL_parse sample_platform
                 (req_url (sample_request ''https://proxy.example/'' ''POST'' (Some ''a=1''))) None
               = Inr (mk_url ''https'' ''proxy.example'' ''/'' None)"
    by (simp add: sample_request_def sample_parse_root)
  have path: "url_pathname (mk_url ''https'' ''proxy.example'' ''/'' None) = ''/''"
    by (simp add: mk_url_def)
  from root_path_static_page [OF parse path] parse path show ?thesis by simp
qed

subsection \<open>Errors\<close>





subsection \<open>Redirects\<close>

text \<open>
  C1, as stated, fails: an upstream redirect whose \<open>Location\<close> does not resolve makes
  \<open>new URL\<close> raise in \<open>handleRedirect\<close>, and the client gets the 500 error response, with
  another status than the upstream response and without a \<open>Location\<close> header. Here the
  upstream answers 302 with \<open>Location: http://[\<close>.
\<close>

theorem redirect_location_counterexample:
  "resp_status sample_bad_redirect \<in> set redirect_statuses \<and>
   fetch sample_platform (sample_outbound ''https://example.com/bad'') = Inr sample_bad_redirect \<and>
   handleRequest sample_platform
     (sample_request ''https://proxy.example/example.com/bad'' ''GET'' None) =
     ([sample_outbound ''https://example.com/bad''], Inr (error_response ''Invalid URL string.'')) \<and>
   resp_status (error_response ''Invalid URL string.'') \<noteq> resp_status sample_bad_redirect \<and>
   headers_get (resp_headers (error_response ''Invalid URL string.'')) ''Location'' = None"
  by (simp add: sample_fetch_bad sample_run_bad_location)
     (simp add: sample_bad_redirect_def redirect_statuses_def error_response_def
        headers_get_values values_Cons, code_simp)

text \<open>
  C1, amended. The handler fetched \<open>outbound\<close> and the upstream answered with a status in
  \<open>{301, 302, 303, 307, 308}\<close> and a \<open>Location\<close> value that resolves against the URL that
  was fetched, to \<open>location\<close>. Then the response to the client has the \<open>Location\<close>
  header \<open>/\<close> followed by the percent-encoding of \<open>location\<close>, and the status and the
  status text of the upstream response.
\<close>

theorem redirect_location_rewritten:
  assumes "fst (handleRequest p request) = [outbound]"
    and "fetch p outbound = Inr upstream"
    and "resp_status upstream \<in> set redirect_statuses"
    and "headers_get (resp_headers upstream) ''Location'' = Some loc"
    and "URL_parse p loc (Some (req_url outbound)) = Inr location"
  shows "\<exists>r. snd (handleRequest p request) = Inr r \<and>
             headers_get (resp_headers r) ''Location''
               = Some (''/'' @ encodeURIComponent (url_href location)) \<and>
             resp_status r = resp_status upstream \<and>
             resp_statusText r = resp_statusText upstream"
  using handleRequest_redirect [OF assms] by (simp add: get_Location_first)

text \<open>
  The example of the specification: \<open>Location: /login\<close> on a 302 fetched from
  \<open>https://example.com/a/b\<close> becomes \<open>/\<close> and the encoding of
  \<open>https://example.com/login\<close>.
\<close>

theorem redirect_location_rewritten_witness:
  "fst (handleRequest sample_platform
          (sample_request ''https://proxy.example/https%3A%2F%2Fexample.com%2Fa%2Fb'' ''GET'' None))
     = [sample_outbound ''https://example.com/a/b''] \<and>
   fetch sample_platform (sample_outbound ''https://example.com/a/b'') = Inr sample_redirect \<and>
   resp_status sample_redirect \<in> set redirect_statuses \<and>
   headers_get (resp_headers sample_redirect) ''Location'' = Some ''/login'' \<and>
   URL_parse sample_platform ''/login''
     (Some (req_url (sample_outbound ''https://example.com/a/b'')))
     = Inr (mk_url ''https'' ''example.com'' ''/login'' None) \<and>
   (\<exists>r. snd (handleRequest sample_platform
                (sample_request ''https://proxy.example/https%3A%2F%2Fexample.com%2Fa%2Fb''
                   ''GET'' None)) = Inr r \<and>
        headers_get (resp_headers r) ''Location'' = Some ''/https%3A%2F%2Fexample.com%2Flogin'' \<and>
        resp_status r = 302 \<and> resp_statusText r = ''Found'')"
proof -
  have run: "fst (handleRequest sample_platform
          (sample_request ''https://proxy.example/https%3A%2F%2Fexample.com%2Fa%2Fb'' ''GET'' None))
     = [sample_outbound ''https://example.com/a/b'']"
    by (simp add: sample_run_redirect)
  have st: "resp_status sample_redirect \<in> set redirect_statuses"
    by (simp add: sample_redirect_def redirect_statuses_def)
  have loc: "headers_get (resp_headers sample_redirect) ''Location'' = Some ''/login''"
    by code_simp
  have enc: "''/'' @ encodeURIComponent (url_href (mk_url ''https'' ''example.com'' ''/login'' None))
               = ''/https%3A%2F%2Fexample.com%2Flogin''"
    by code_simp
  have stv: "resp_status sample_redirect = 302" "resp_statusText sample_redirect = ''Found''"
    by (simp_all add: sample_redirect_def)
  have "\<exists>r. snd (handleRequest sample_platform
                (sample_request ''https://proxy.example/https%3A%2F%2Fexample.com%2Fa%2Fb''
                   ''GET'' None)) = Inr r \<and>
        headers_get (resp_headers r) ''Location'' = Some ''/https%3A%2F%2Fexample.com%2Flogin'' \<and>
        resp_status r = 302 \<and> resp_statusText r = ''Found''"
    using redirect_location_rewritten [OF run sample_fetch_redirect st loc sample_parse_login]
    unfolding enc stv .
  with run sample_fetch_redirect st loc sample_parse_login show ?thesis
    by (intro conjI)
qed

text \<open>
  C10, as stated, fails on the same input: the response to the redirect with the
  unresolvable \<open>Location\<close> is the error response, whose only header is \<open>Content-Type\<close>.
\<close>

theorem redirect_headers_counterexample:
  "resp_status sample_bad_redirect \<in> set redirect_statuses \<and>
   fetch sample_platform (sample_outbound ''https://example.com/bad'') = Inr sample_bad_redirect \<and>
   snd (handleRequest sample_platform
          (sample_request ''https://proxy.example/example.com/bad'' ''GET'' None)) =
     Inr (error_response ''Invalid URL string.'') \<and>
   resp_headers (error_response ''Invalid URL string.'') =
     [(''Content-Type'', ''application/json; charset=utf-8'')]"
  by (simp add: sample_fetch_bad sample_run_bad_location)
     (simp add: sample_bad_redirect_def redirect_statuses_def error_response_def)

text \<open>
  C10, amended. For an upstream redirect whose \<open>Location\<close> value resolves, the header list
  of the response to the client is exactly \<open>Location\<close>, followed by \<open>Set-Cookie\<close> when the
  upstream response carried it: spreading the upstream \<open>Headers\<close> object contributes no
  entry, so every other upstream header is dropped.
\<close>

theorem redirect_headers_only_location:
  assumes "fst (handleRequest p request) = [outbound]"
    and "fetch p outbound = Inr upstream"
    and "resp_status upstream \<in> set redirect_statuses"
    and "headers_get (resp_headers upstream) ''Location'' = Some loc"
    and "URL_parse p loc (Some (req_url outbound)) = Inr location"
  shows "\<exists>r. snd (handleRequest p request) = Inr r \<and>
             resp_headers r =
               (''Location'', ''/'' @ encodeURIComponent (url_href location)) #
               (case headers_get (resp_headers upstream) ''Set-Cookie'' of
                  None \<Rightarrow> [] | Some v \<Rightarrow> [(''Set-Cookie'', v)])"
  using handleRequest_redirect [OF assms] by simp

text \<open>The upstream header \<open>Server: nginx\<close> of the sample redirect is dropped.\<close>

theorem redirect_headers_only_location_witness:
  "fst (handleRequest sample_platform
          (sample_request ''https://proxy.example/https%3A%2F%2Fexample.com%2Fa%2Fb'' ''GET'' None))
     = [sample_outbound ''https://example.com/a/b''] \<and>
   fetch sample_platform (sample_outbound ''https://example.com/a/b'') = Inr sample_redirect \<and>
   resp_status sample_redirect \<in> set redirect_statuses \<and>
   headers_get (resp_headers sample_redirect) ''Location'' = Some ''/login'' \<and>
   headers_get (resp_headers sample_redirect) ''Server'' = Some ''nginx'' \<and>
   URL_parse sample_platform ''/login''
     (Some (req_url (sample_outbound ''https://example.com/a/b'')))
     = Inr (mk_url ''https'' ''example.com'' ''/login'' None) \<and>
   (\<exists>r. snd (handleRequest sample_platform
                (sample_request ''https://proxy.example/https%3A%2F%2Fexample.com%2Fa%2Fb''
                   ''GET'' None)) = Inr r \<and>
        resp_headers r =
          [(''Location'', ''/https%3A%2F%2Fexample.com%2Flogin''), (''Set-Cookie'', ''sid=1'')])"
proof -
  have run: "fst (handleRequest sample_platform
          (sample_request ''https://proxy.example/https%3A%2F%2Fexample.com%2Fa%2Fb'' ''GET'' None))
     = [sample_outbound ''https://example.com/a/b'']"
    by (simp add: sample_run_redirect)
  have st: "resp_status sample_redirect \<in> set redirect_statuses"
    by (simp add: sample_redirect_def redirect_statuses_def)
  have loc: "headers_get (resp_headers sample_redirect) ''Location'' = Some ''/login''"
    by code_simp
  have srv: "headers_get (resp_headers sample_redirect) ''Server'' = Some ''nginx''"
    by code_simp
  have ck: "headers_get (resp_headers sample_redirect) ''Set-Cookie'' = Some ''sid=1''"
    by code_simp
  have enc: "''/'' @ encodeURIComponent (url_href (mk_url ''https'' ''example.com'' ''/login'' None))
               = ''/https%3A%2F%2Fexample.com%2Flogin''"
    by code_simp
  have "\<exists>r. snd (handleRequest sample_platform
                (sample_request ''https://proxy.example/https%3A%2F%2Fexample.com%2Fa%2Fb''
                   ''GET'' None)) = Inr r \<and>
        resp_headers r =
          [(''Location'', ''/https%3A%2F%2Fexample.com%2Flogin''), (''Set-Cookie'', ''sid=1'')]"
    using redirect_headers_only_location
            [OF run sample_fetch_redirect st loc sample_parse_login]
    unfolding enc ck by simp
  with run sample_fetch_redirect st loc srv sample_parse_login show ?thesis
    by (intro conjI)
qed

subsection \<open>Cache and CORS headers\<close>

text \<open>
  C4, as stated, fails: the landing page, a rewritten redirect and an error response carry
  neither \<open>Access-Control-Allow-Origin\<close> nor \<open>Cache-Control\<close>. Only the response built
  from a non-redirect upstream response passes through \<open>setNoCacheHeaders\<close> and
  \<open>setCorsHeaders\<close>.
\<close>

theorem cors_nocache_counterexample:
  "handleRequest sample_platform (sample_request ''https://proxy.example/'' ''POST'' (Some ''a=1'')) =
     ([], Inr \<lparr> resp_status = 200, resp_statusText = [],
                resp_headers = [(''Content-Type'', ''text/html; charset=utf-8'')],
                resp_body = Some (getRootHtml sample_platform) \<rparr>) \<and>
   headers_get [(''Content-Type'', ''text/html; charset=utf-8'')] ''Access-Control-Allow-Origin''
     = None \<and>
   headers_get [(''Content-Type'', ''text/html; charset=utf-8'')] ''Cache-Control'' = None \<and>
   handleRequest sample_platform
     (sample_request ''https://proxy.example/https%3A%2F%2Fexample.com%2Fa%2Fb'' ''GET'' None) =
     ([sample_outbound ''https://example.com/a/b''],
      Inr \<lparr> resp_status = 302, resp_statusText = ''Found'',
            resp_headers =
              [(''Location'', ''/https%3A%2F%2Fexample.com%2Flogin''), (''Set-Cookie'', ''sid=1'')],
            resp_body = None \<rparr>) \<and>
   headers_get [(''Location'', ''/https%3A%2F%2Fexample.com%2Flogin''), (''Set-Cookie'', ''sid=1'')]
     ''Access-Control-Allow-Origin'' = None \<and>
   headers_get [(''Location'', ''/https%3A%2F%2Fexample.com%2Flogin''), (''Set-Cookie'', ''sid=1'')]
     ''Cache-Control'' = None \<and>
   handleRequest sample_platform (sample_request ''https://proxy.example/%'' ''GET'' None) =
     ([], Inr (error_response ''URI malformed'')) \<and>
   headers_get (resp_headers (error_response ''URI malformed'')) ''Access-Control-Allow-Origin''
     = None \<and>
   headers_get (resp_headers (error_response ''URI malformed'')) ''Cache-Control'' = None"
proof -
  have "headers_get [(''Content-Type'', ''text/html; charset=utf-8'')]
          ''Access-Control-Allow-Origin'' = None"
    by code_simp
  moreover have "headers_get [(''Content-Type'', ''text/html; charset=utf-8'')] ''Cache-Control''
          = None"
    by code_simp
  moreover have "headers_get
          [(''Location'', ''/https%3A%2F%2Fexample.com%2Flogin''), (''Set-Cookie'', ''sid=1'')]
          ''Access-Control-Allow-Origin'' = None"
    by code_simp
  moreover have "headers_get
          [(''Location'', ''/https%3A%2F%2Fexample.com%2Flogin''), (''Set-Cookie'', ''sid=1'')]
          ''Cache-Control'' = None"
    by code_simp
  moreover have "headers_get (resp_headers (error_response ''URI malformed''))
          ''Access-Control-Allow-Origin'' = None"
    by code_simp
  moreover have "headers_get (resp_headers (error_response ''URI malformed'')) ''Cache-Control''
          = None"
    by code_simp
  ultimately show ?thesis
    using sample_run_root sample_run_redirect sample_run_malformed by (intro conjI)
qed

text \<open>
  C4, amended. When the handler fetched \<open>outbound\<close>, the upstream response is no redirect
  and no step raised, the response to the client carries
  \<open>Access-Control-Allow-Origin: *\<close> and \<open>Cache-Control: no-store\<close>.
\<close>

theorem proxied_response_cors_nocache:
  assumes "fst (handleRequest p request) = [outbound]"
    and "fetch p outbound = Inr upstream"
    and "resp_status upstream \<notin> set redirect_statuses"
    and "snd (handleRequest_try p request) = Inr r"
  shows "snd (handleRequest p request) = Inr r \<and>
         headers_get (resp_headers r) ''Access-Control-Allow-Origin'' = Some ''*'' \<and>
         headers_get (resp_headers r) ''Cache-Control'' = Some ''no-store''"
proof -
  from assms(1) have "fst (handleRequest_try p request) = [outbound]"
    by (simp add: handleRequest_fetched)
  then obtain url where
    "snd (handleRequest_try p request) =
            (case fetch p outbound of
               Inl e \<Rightarrow> Inl e
             | Inr response \<Rightarrow> proxyResponse p request url (req_url outbound) response)"
    by (rule handleRequest_try_fetched)
  with assms(2,4) have "proxyResponse p request url (req_url outbound) upstream = Inr r"
    by simp
  from proxyResponse_finalized [OF assms(3) this] assms(4) show ?thesis
    by (auto simp: get_after_finalizer handleRequest_try_Inr)
qed

text \<open>
  The sample page is served upstream with \<open>Cache-Control: max-age=60\<close>; the client gets
  \<open>no-store\<close>.
\<close>

theorem proxied_response_cors_nocache_witness:
  "fst (handleRequest sample_platform
          (sample_request ''https://proxy.example/example.com/page?x=1'' ''GET'' None))
     = [sample_outbound ''https://example.com/page?x=1''] \<and>
   fetch sample_platform (sample_outbound ''https://example.com/page?x=1'') = Inr sample_page \<and>
   resp_status sample_page \<notin> set redirect_statuses \<and>
   headers_get (resp_headers sample_page) ''Cache-Control'' = Some ''max-age=60'' \<and>
   (\<exists>r. snd (handleRequest_try sample_platform
                (sample_request ''https://proxy.example/example.com/page?x=1'' ''GET'' None))
          = Inr r \<and>
        snd (handleRequest sample_platform
                (sample_request ''https://proxy.example/example.com/page?x=1'' ''GET'' None))
          = Inr r \<and>
        resp_status r = 200 \<and>
        headers_get (resp_headers r) ''Access-Control-Allow-Origin'' = Some ''*'' \<and>
        headers_get (resp_headers r) ''Cache-Control'' = Some ''no-store'')"
proof -
  have st: "resp_status sample_page \<notin> set redirect_statuses"
    by (simp add: sample_page_def redirect_statuses_def)
  have cc: "headers_get (resp_headers sample_page) ''Cache-Control'' = Some ''max-age=60''"
    by code_simp
  obtain r where r: "snd (handleRequest_try sample_platform
                (sample_request ''https://proxy.example/example.com/page?x=1'' ''GET'' None))
          = Inr r" and s: "resp_status r = 200"
    by (simp add: sample_try_page)
  from proxied_response_cors_nocache [OF sample_run_page sample_fetch_page st r] r s
  have "\<exists>r. snd (handleRequest_try sample_platform
                (sample_request ''https://proxy.example/example.com/page?x=1'' ''GET'' None))
          = Inr r \<and>
        snd (handleRequest sample_platform
                (sample_request ''https://proxy.example/example.com/page?x=1'' ''GET'' None))
          = Inr r \<and>
        resp_status r = 200 \<and>
        headers_get (resp_headers r) ''Access-Control-Allow-Origin'' = Some ''*'' \<and>
        headers_get (resp_headers r) ''Cache-Control'' = Some ''no-store''"
    by blast
  with sample_run_page sample_fetch_page st cc show ?thesis
    by (intro conjI)
qed

subsection \<open>The outbound request\<close>



text \<open>
  C9. When the handler fetched \<open>outbound\<close>, the URL that was fetched parses and the \<open>Host\<close>
  header of \<open>outbound\<close> is the hostname of that URL.
\<close>

theorem outbound_host_is_target_hostname:
  assumes "fst (handleRequest p request) = [outbound]"
  shows "\<exists>target. URL_parse p (req_url outbound) None = Inr target \<and>
           headers_get (req_headers outbound) ''Host'' = Some (url_hostname target)"
proof -
  from assms have "fst (handleRequest_try p request) = [outbound]"
    by (simp add: handleRequest_fetched)
  then obtain hs where
    hs: "outboundHeaders p request (req_url outbound) = Inr hs" and
    req: "Request_new p (req_url outbound) hs (req_method request) (req_body request) Manual
            = Inr outbound"
    by (rule handleRequest_try_fetched)
  from hs obtain target where "URL_parse p (req_url outbound) None = Inr target"
    and "headers_get hs ''Host'' = Some (url_hostname target)"
    by (auto simp: outboundHeaders_def Let_def split: sum.splits)
  with Request_new_url [OF req] show ?thesis by auto
qed

text \<open>The inbound \<open>Host: proxy.example\<close> is replaced by the host of the target.\<close>

theorem outbound_host_is_target_hostname_witness:
  "headers_get (req_headers (sample_request ''https://proxy.example/example.com/page?x=1'' ''GET'' None))
     ''Host'' = Some ''proxy.example'' \<and>
   fst (handleRequest sample_platform
          (sample_request ''https://proxy.example/example.com/page?x=1'' ''GET'' None))
     = [sample_outbound ''https://example.com/page?x=1''] \<and>
   URL_parse sample_platform (req_url (sample_outbound ''https://example.com/page?x=1'')) None
     = Inr (mk_url ''https'' ''example.com'' ''/page'' (Some ''x=1'')) \<and>
   headers_get (req_headers (sample_outbound ''https://example.com/page?x=1'')) ''Host''
     = Some ''example.com''"
proof -
  have inb: "headers_get
     (req_headers (sample_request ''https://proxy.example/example.com/page?x=1'' ''GET'' None))
     ''Host'' = Some ''proxy.example''"
    by code_simp
  have parse: "URL_parse sample_platform
     (req_url (sample_outbound ''https://example.com/page?x=1'')) None
     = Inr (mk_url ''https'' ''example.com'' ''/page'' (Some ''x=1''))"
    by code_simp
  have hn: "url_hostname (mk_url ''https'' ''example.com'' ''/page'' (Some ''x=1'')) = ''example.com''"
    by (simp add: mk_url_def)
  from outbound_host_is_target_hostname [OF sample_run_page] inb parse hn sample_run_page
  show ?thesis by simp
qed

subsection \<open>Header filtering\<close>

lemma headers_has_iff: "headers_has h n = (\<exists>x \<in> set h. name_eq (fst x) n)"
  by (force simp: headers_has_def list_ex_iff)

lemma has_entries: "headers_has (headers_entries h) n \<Longrightarrow> headers_has h n"
proof -
  assume "headers_has (headers_entries h) n"
  then obtain x m where "m \<in> set (sorted_names h)" "x \<in> set (combine_name h m)"
    "name_eq (fst x) n"
    by (auto simp: headers_has_iff headers_entries_def)
  then have "m \<in> (\<lambda>x. toLowerCase (fst x)) ` set h" "name_eq m n"
    by (auto simp: sorted_names_props dest: fst_combine_name)
  then show ?thesis
    by (force simp: headers_has_iff)
qed

lemma lower_Host: "toLowerCase ''Host'' = ''host''"
  by code_simp

lemma not_name_eq_Cookie_Host: "\<not> name_eq ''Cookie'' ''Host''"
  by code_simp

lemma name_eq_cookie: "name_eq ''cookie'' ''Cookie''"
  by code_simp

lemma filtered_no_Host: "\<not> headers_has (filterHeaders h outbound_filter) ''Host''"
  by (auto simp: filterHeaders_eq headers_has_iff outbound_filter_def name_eq_def lower_Host)

lemma filtered_no_cf:
  assumes "startsWith (toLowerCase n) ''cf-''"
  shows "\<not> headers_has (filterHeaders h outbound_filter) n"
proof
  assume "headers_has (filterHeaders h outbound_filter) n"
  then obtain x where x: "x \<in> set (headers_entries h)" "outbound_filter (fst x)"
    "name_eq (fst x) n"
    by (auto simp: filterHeaders_eq headers_has_iff)
  from x(1) have "toLowerCase (fst x) = fst x"
    using iterated_entries [of h] by (simp add: iterated_def)
  with x(3) have "fst x = toLowerCase n" by (simp add: name_eq_def)
  with x(2) assms show False by (simp add: outbound_filter_def)
qed

lemma outbound_cookie:
  assumes "outboundHeaders p request actualUrlStr = Inr hs"
  shows "headers_has hs ''Cookie'' = headers_has (req_headers request) ''Cookie''"
proof -
  let ?inbound = "req_headers request"
  let ?filtered = "filterHeaders ?inbound outbound_filter"
  let ?withCookie = "if headers_has ?inbound ''cookie''
             then headers_set ?filtered ''Cookie'' (js_string (headers_get ?inbound ''cookie''))
             else ?filtered"
  from assms have 1: "headers_has hs ''Cookie'' = headers_has ?withCookie ''Cookie''"
    by (auto simp: outboundHeaders_def Let_def has_set_other not_name_eq_Cookie_Host
          split: sum.splits)
  have 2: "headers_has ?inbound ''cookie'' = headers_has ?inbound ''Cookie''"
    by (simp add: headers_has_values values_name_cong [OF name_eq_cookie])
  show ?thesis
  proof (cases "headers_has ?inbound ''Cookie''")
    case True
    with 1 2 show ?thesis by (simp add: headers_has_values)
  next
    case False
    have "\<not> headers_has ?filtered ''Cookie''"
    proof
      assume "headers_has ?filtered ''Cookie''"
      then have "headers_has (headers_entries ?inbound) ''Cookie''"
        by (force simp: filterHeaders_eq headers_has_iff)
      with False show False by (simp add: has_entries)
    qed
    with False 1 2 show ?thesis by simp
  qed
qed

text \<open>
  C8. Filtering a filtered header list again gives the same header list, for the filter of
  the worker and for any other. The filtered list has no \<open>Host\<close> header and no header
  whose name starts, in any letter case, with \<open>cf-\<close>. The outbound request that the
  handler fetches has a \<open>Cookie\<close> header exactly when the inbound request has one.
\<close>

theorem header_filtering:
  "filterHeaders (filterHeaders h filterFunc) filterFunc = filterHeaders h filterFunc \<and>
   \<not> headers_has (filterHeaders h outbound_filter) ''Host'' \<and>
   (\<forall>n. startsWith (toLowerCase n) ''cf-'' \<longrightarrow>
        \<not> headers_has (filterHeaders h outbound_filter) n) \<and>
   (fst (handleRequest p request) = [outbound] \<longrightarrow>
      headers_has (req_headers outbound) ''Cookie''
        = headers_has (req_headers request) ''Cookie'')"
proof (intro conjI allI impI)
  assume "fst (handleRequest p request) = [outbound]"
  then have "fst (handleRequest_try p request) = [outbound]"
    by (simp add: handleRequest_fetched)
  then obtain hs where
    hs: "outboundHeaders p request (req_url outbound) = Inr hs" and
    req: "Request_new p (req_url outbound) hs (req_method request) (req_body request) Manual
            = Inr outbound"
    by (rule handleRequest_try_fetched)
  from Request_new_url [OF req] outbound_cookie [OF hs]
  show "headers_has (req_headers outbound) ''Cookie''
          = headers_has (req_headers request) ''Cookie''"
    by simp
qed (simp_all add: filterHeaders_idem filtered_no_Host filtered_no_cf)

text \<open>
  The sample request carries \<open>Host\<close>, \<open>CF-Ray\<close>, \<open>Cookie\<close> and \<open>Accept\<close>; the filter keeps
  the last two.
\<close>

theorem header_filtering_witness:
  "filterHeaders sample_headers outbound_filter = [(''accept'', ''*/*''), (''cookie'', ''sid=1'')] \<and>
   filterHeaders (filterHeaders sample_headers outbound_filter) outbound_filter
     = filterHeaders sample_headers outbound_filter \<and>
   headers_has sample_headers ''Host'' \<and>
   \<not> headers_has (filterHeaders sample_headers outbound_filter) ''Host'' \<and>
   headers_has sample_headers ''CF-Ray'' \<and> startsWith (toLowerCase ''CF-Ray'') ''cf-'' \<and>
   \<not> headers_has (filterHeaders sample_headers outbound_filter) ''CF-Ray'' \<and>
   fst (handleRequest sample_platform
          (sample_request ''https://proxy.example/example.com/page?x=1'' ''GET'' None))
     = [sample_outbound ''https://example.com/page?x=1''] \<and>
   headers_has
     (req_headers (sample_request ''https://proxy.example/example.com/page?x=1'' ''GET'' None))
     ''Cookie'' \<and>
   headers_has (req_headers (sample_outbound ''https://example.com/page?x=1'')) ''Cookie''"
proof -
  have f: "filterHeaders sample_headers outbound_filter
             = [(''accept'', ''*/*''), (''cookie'', ''sid=1'')]"
    by code_simp
  have host: "headers_has sample_headers ''Host''"
    by code_simp
  have ray: "headers_has sample_headers ''CF-Ray''"
    by code_simp
  have cf: "startsWith (toLowerCase ''CF-Ray'') ''cf-''"
    by code_simp
  have ck: "headers_has
     (req_headers (sample_request ''https://proxy.example/example.com/page?x=1'' ''GET'' None))
     ''Cookie''"
    by code_simp
  note inst = header_filtering
    [of sample_headers outbound_filter sample_platform
        "sample_request ''https://proxy.example/example.com/page?x=1'' ''GET'' None"
        "sample_outbound ''https://example.com/page?x=1''"]
  from inst have idem: "filterHeaders (filterHeaders sample_headers outbound_filter) outbound_filter
     = filterHeaders sample_headers outbound_filter"
    by (rule conjunct1)
  from inst have noHost: "\<not> headers_has (filterHeaders sample_headers outbound_filter) ''Host''"
    by simp
  from inst cf have noRay: "\<not> headers_has (filterHeaders sample_headers outbound_filter) ''CF-Ray''"
    by blast
  from inst sample_run_page ck
  have out: "headers_has (req_headers (sample_outbound ''https://example.com/page?x=1'')) ''Cookie''"
    by blast
  from f idem host noHost ray cf noRay sample_run_page ck out show ?thesis
    by (intro conjI)
qed

end
